theory Spec2Isabelle
  imports Complex_Main
begin

section \<open>JavaScript numbers\<close>

text \<open>
  A JavaScript number is an IEEE 754 double: a finite value, an infinity or NaN. The
  finite values are carried as the real numbers they denote; the two zeros are one
  value here (the sign of a zero decides only the sign of a quotient by it, and the
  divisors of this code are canvas sizes and a time difference of at least 1000).
  The result of an arithmetic operation is the exact result rounded to the nearest
  double, a tie going to the double with the even significand (\<open>round64\<close>), and an
  infinity when it lies beyond the largest double.
\<close>

datatype number = Fin real | PInf | NInf | NaN

text \<open>The nearest integer, a half going to the even neighbour.\<close>

definition rne :: "real \<Rightarrow> int" where
  "rne q = (let f = \<lfloor>q\<rfloor>; d = q - of_int f in
            if d < 1 / 2 then f else if 1 / 2 < d then f + 1
            else if even f then f else f + 1)"

text \<open>
  The binary exponent of the interval a value lies in, which is -1022 for the
  subnormal values as well; the distance of neighbouring doubles in that interval
  (53 significant bits); and the value rounded to a multiple of it.
\<close>

definition bexp :: "real \<Rightarrow> int" where
  "bexp x = max \<lfloor>log 2 \<bar>x\<bar>\<rfloor> (- 1022)"

definition ulp :: "real \<Rightarrow> real" where
  "ulp x = 2 powr (of_int (bexp x - 52))"

definition g64 :: "real \<Rightarrow> real" where
  "g64 x = of_int (rne (x / ulp x)) * ulp x"

definition round64 :: "real \<Rightarrow> number" where
  "round64 x =
     (if x = 0 then Fin 0
      else if 2 powr 1024 \<le> \<bar>g64 x\<bar> then (if 0 < x then PInf else NInf)
      else Fin (g64 x))"

definition inf_of :: "bool \<Rightarrow> number" where
  "inf_of positive = (if positive then PInf else NInf)"

definition nneg :: "number \<Rightarrow> number" where
  "nneg a = (case a of Fin x \<Rightarrow> Fin (- x) | PInf \<Rightarrow> NInf | NInf \<Rightarrow> PInf | NaN \<Rightarrow> NaN)"

definition nadd :: "number \<Rightarrow> number \<Rightarrow> number" where
  "nadd a b =
     (case a of
        NaN \<Rightarrow> NaN
      | Fin x \<Rightarrow> (case b of Fin y \<Rightarrow> round64 (x + y) | _ \<Rightarrow> b)
      | PInf \<Rightarrow> (case b of NaN \<Rightarrow> NaN | NInf \<Rightarrow> NaN | _ \<Rightarrow> PInf)
      | NInf \<Rightarrow> (case b of NaN \<Rightarrow> NaN | PInf \<Rightarrow> NaN | _ \<Rightarrow> NInf))"

definition nsub :: "number \<Rightarrow> number \<Rightarrow> number" where
  "nsub a b = nadd a (nneg b)"

definition nmul :: "number \<Rightarrow> number \<Rightarrow> number" where
  "nmul a b =
     (case a of
        NaN \<Rightarrow> NaN
      | Fin x \<Rightarrow>
          (case b of
             Fin y \<Rightarrow> round64 (x * y)
           | NaN \<Rightarrow> NaN
           | PInf \<Rightarrow> if x = 0 then NaN else inf_of (0 < x)
           | NInf \<Rightarrow> if x = 0 then NaN else inf_of (x < 0))
      | PInf \<Rightarrow>
          (case b of
             Fin y \<Rightarrow> if y = 0 then NaN else inf_of (0 < y)
           | NaN \<Rightarrow> NaN | PInf \<Rightarrow> PInf | NInf \<Rightarrow> NInf)
      | NInf \<Rightarrow>
          (case b of
             Fin y \<Rightarrow> if y = 0 then NaN else inf_of (y < 0)
           | NaN \<Rightarrow> NaN | PInf \<Rightarrow> NInf | NInf \<Rightarrow> PInf))"

definition ndiv :: "number \<Rightarrow> number \<Rightarrow> number" where
  "ndiv a b =
     (case a of
        NaN \<Rightarrow> NaN
      | Fin x \<Rightarrow>
          (case b of
             Fin y \<Rightarrow> if y = 0 then (if x = 0 then NaN else inf_of (0 < x))
                      else round64 (x / y)
           | NaN \<Rightarrow> NaN
           | _ \<Rightarrow> Fin 0)
      | PInf \<Rightarrow> (case b of Fin y \<Rightarrow> inf_of (0 \<le> y) | _ \<Rightarrow> NaN)
      | NInf \<Rightarrow> (case b of Fin y \<Rightarrow> inf_of (y < 0) | _ \<Rightarrow> NaN))"

text \<open>
  \<^verbatim>\<open>Math.sqrt\<close> gives the rounded square root. The language leaves the precision
  of \<^verbatim>\<open>Math.pow\<close> to the implementation; for the exponent 2 the engines return the
  rounded product of the base with itself, which is what the model takes.
\<close>

definition nsqrt :: "number \<Rightarrow> number" where
  "nsqrt a =
     (case a of
        Fin x \<Rightarrow> if x < 0 then NaN else round64 (sqrt x)
      | PInf \<Rightarrow> PInf
      | _ \<Rightarrow> NaN)"

definition npow2 :: "number \<Rightarrow> number" where
  "npow2 a = nmul a a"

text \<open>The comparisons \<^verbatim>\<open><\<close> and \<^verbatim>\<open><=\<close>: false whenever an operand is NaN.\<close>

definition nless :: "number \<Rightarrow> number \<Rightarrow> bool" where
  "nless a b =
     (case a of
        NaN \<Rightarrow> False
      | Fin x \<Rightarrow> (case b of Fin y \<Rightarrow> x < y | PInf \<Rightarrow> True | _ \<Rightarrow> False)
      | PInf \<Rightarrow> False
      | NInf \<Rightarrow> (case b of Fin y \<Rightarrow> True | PInf \<Rightarrow> True | _ \<Rightarrow> False))"

definition nle :: "number \<Rightarrow> number \<Rightarrow> bool" where
  "nle a b =
     (case a of
        NaN \<Rightarrow> False
      | Fin x \<Rightarrow> (case b of Fin y \<Rightarrow> x \<le> y | PInf \<Rightarrow> True | _ \<Rightarrow> False)
      | PInf \<Rightarrow> (case b of PInf \<Rightarrow> True | _ \<Rightarrow> False)
      | NInf \<Rightarrow> (case b of NaN \<Rightarrow> False | _ \<Rightarrow> True))"

text \<open>\<^verbatim>\<open>Math.max\<close> of two numbers and \<^verbatim>\<open>Math.round\<close> (a half goes upwards).\<close>

definition nmax :: "number \<Rightarrow> number \<Rightarrow> number" where
  "nmax a b = (if a = NaN \<or> b = NaN then NaN else if nless a b then b else a)"

definition nround :: "number \<Rightarrow> number" where
  "nround a = (case a of Fin x \<Rightarrow> Fin (of_int \<lfloor>x + 1 / 2\<rfloor>) | _ \<Rightarrow> a)"

section \<open>The hand-tracking widget (HandTeleopWidget.tsx)\<close>

text \<open>
  The fields \<^verbatim>\<open>x\<close>, \<^verbatim>\<open>y\<close>, \<^verbatim>\<open>z\<close> of the source's points are called
  \<open>px\<close>, \<open>py\<close>, \<open>pz\<close> (and \<open>rx\<close>, \<open>ry\<close>, \<open>rz\<close> in the robot mapping) so
  that they do not capture the variables of the theorems. A value that is
  \<^verbatim>\<open>null\<close> in the source is \<open>None\<close>.
\<close>

record point =
  px :: number
  py :: number
  pz :: number

record FingertipData =
  thumb :: "point option"
  indexPip :: "point option"
  indexTip :: "point option"

datatype gripper_state = Open | Closed

record RobotMapping =
  rx :: number
  ry :: number
  rz :: number
  gripper :: gripper_state

text \<open>
  The canvas element: its size, whether \<^verbatim>\<open>getContext('2d')\<close> gives a context, and
  what the overlay currently shows (\<open>None\<close> after \<^verbatim>\<open>clearRect\<close>, the three points
  after \<^verbatim>\<open>drawFingertips\<close> has drawn them).
\<close>

record canvas_elem =
  cwidth :: nat
  cheight :: nat
  has_ctx :: bool
  overlay :: "FingertipData option"

text \<open>
  A function of the component reads \<^verbatim>\<open>isTracking\<close> as it was in the render that
  created the function. The two callbacks handed to MediaPipe keep that value for as
  long as they stay registered: \<open>handsRef\<close> holds, for the Hands object, the value its
  registered \<^verbatim>\<open>onResults\<close> reads, and the camera holds the value its
  \<^verbatim>\<open>onFrame\<close> reads, beside whether it runs.
\<close>

record camera =
  running :: bool
  onFrame_isTracking :: bool

text \<open>
  The component state: the React state variables and the refs, \<open>None\<close> while their
  \<^verbatim>\<open>current\<close> is null. \<open>videoRef\<close> holds the video element's
  \<^verbatim>\<open>videoWidth\<close> and \<^verbatim>\<open>videoHeight\<close> (unsigned integers).
\<close>

record widget =
  isTracking :: bool
  isLoading :: bool
  fingertips :: FingertipData
  robotMapping :: RobotMapping
  fps :: number
  status :: string
  canvasRef :: "canvas_elem option"
  videoRef :: "(nat \<times> nat) option"
  cameraRef :: "camera option"
  handsRef :: "bool option"
  frameCountRef :: number
  lastTimeRef :: number

definition no_fingertips :: FingertipData where
  "no_fingertips = \<lparr>thumb = None, indexPip = None, indexTip = None\<rparr>"

definition neutral :: RobotMapping where
  "neutral = \<lparr>rx = Fin 0, ry = Fin 0, rz = Fin 0, gripper = Open\<rparr>"

text \<open>The values of the \<^verbatim>\<open>useState\<close> and \<^verbatim>\<open>useRef\<close> initialisers.\<close>

definition initial_widget :: "canvas_elem option \<Rightarrow> (nat \<times> nat) option \<Rightarrow> widget" where
  "initial_widget c v =
     \<lparr>isTracking = False, isLoading = False, fingertips = no_fingertips,
      robotMapping = neutral, fps = Fin 0, status = ''Ready to start tracking'',
      canvasRef = c, videoRef = v, cameraRef = None, handsRef = None,
      frameCountRef = Fin 0, lastTimeRef = Fin 0\<rparr>"

subsection \<open>updateRobotMapping\<close>

text \<open>\<^verbatim>\<open>Math.sqrt(Math.pow(a.x - b.x, 2) + Math.pow(a.y - b.y, 2))\<close>\<close>

definition distance :: "point \<Rightarrow> point \<Rightarrow> number" where
  "distance a b =
     nsqrt (nadd (npow2 (nsub (px a) (px b))) (npow2 (nsub (py a) (py b))))"

definition updateRobotMapping :: "FingertipData \<Rightarrow> number \<Rightarrow> number \<Rightarrow> widget \<Rightarrow> widget" where
  "updateRobotMapping data width height s =
     (case (thumb data, indexTip data) of
        (Some t, Some i) \<Rightarrow>
          s\<lparr>robotMapping :=
              \<lparr>rx = nmul (nsub (ndiv (px i) width) (Fin (1 / 2))) (Fin 2),
               ry = nmul (nsub (ndiv (py i) height) (Fin (1 / 2))) (Fin (- 2)),
               rz = nmax (Fin 0) (nmul (pz i) (Fin 2)),
               gripper = (if nless (distance t i) (Fin 50) then Closed else Open)\<rparr>\<rparr>
      | _ \<Rightarrow> s)"

subsection \<open>updateFPS\<close>

text \<open>\<open>now\<close> is the value \<^verbatim>\<open>performance.now()\<close> returns.\<close>

definition updateFPS :: "number \<Rightarrow> widget \<Rightarrow> widget" where
  "updateFPS now s =
     (let n = nadd (frameCountRef s) (Fin 1) in
      if nle (Fin 1000) (nsub now (lastTimeRef s))
      then s\<lparr>fps := nround (ndiv (nmul n (Fin 1000)) (nsub now (lastTimeRef s))),
             frameCountRef := Fin 0, lastTimeRef := now\<rparr>
      else s\<lparr>frameCountRef := n\<rparr>)"

subsection \<open>onResults\<close>

text \<open>
  The argument of \<^verbatim>\<open>onResults\<close>: \<^verbatim>\<open>results.multiHandLandmarks\<close>, absent or a
  list of hands, each a list of landmarks in normalised coordinates. Reading
  \<^verbatim>\<open>landmarks[k]\<close> beyond the list gives \<^verbatim>\<open>undefined\<close>, and the access to its
  \<^verbatim>\<open>x\<close> then throws a \<^verbatim>\<open>TypeError\<close>.
\<close>

datatype js_error = TypeError

definition landmark_at :: "point list \<Rightarrow> nat \<Rightarrow> point option" where
  "landmark_at landmarks k = (if k < length landmarks then Some (landmarks ! k) else None)"

text \<open>\<^verbatim>\<open>videoRef.current?.videoWidth || 640\<close> and the same for the height with 480.\<close>

definition frame_width :: "(nat \<times> nat) option \<Rightarrow> nat" where
  "frame_width v = (case v of None \<Rightarrow> 640 | Some (vw, vh) \<Rightarrow> if vw = 0 then 640 else vw)"

definition frame_height :: "(nat \<times> nat) option \<Rightarrow> nat" where
  "frame_height v = (case v of None \<Rightarrow> 480 | Some (vw, vh) \<Rightarrow> if vh = 0 then 480 else vh)"

text \<open>The conversion to pixel coordinates; a canvas size is a double exactly.\<close>

definition to_pixels :: "point \<Rightarrow> nat \<Rightarrow> nat \<Rightarrow> point" where
  "to_pixels p w h =
     \<lparr>px = nmul (px p) (Fin (real w)), py = nmul (py p) (Fin (real h)), pz = pz p\<rparr>"

text \<open>The \<^verbatim>\<open>newFingertips\<close> that \<open>onResults\<close> builds from the three landmarks.\<close>

definition fingertips_of :: "point \<Rightarrow> point \<Rightarrow> point \<Rightarrow> nat \<Rightarrow> nat \<Rightarrow> FingertipData" where
  "fingertips_of thumbTip indexPip' indexTip' w h =
     \<lparr>thumb = Some (to_pixels thumbTip w h), indexPip = Some (to_pixels indexPip' w h),
      indexTip = Some (to_pixels indexTip' w h)\<rparr>"

text \<open>\<^verbatim>\<open>drawFingertips\<close> draws nothing unless the three points are there.\<close>

definition drawFingertips :: "FingertipData \<Rightarrow> canvas_elem \<Rightarrow> canvas_elem" where
  "drawFingertips data c =
     (if thumb data = None \<or> indexPip data = None \<or> indexTip data = None then c
      else c\<lparr>overlay := Some data\<rparr>)"

text \<open>
  \<open>onResults\<close> with the value of \<^verbatim>\<open>isTracking\<close> it reads as its first argument.
  It returns at once unless that value holds and the canvas is there and gives a
  drawing context. Otherwise the canvas takes the size of the video and is cleared;
  with a hand, the three fingertips are set, drawn and mapped, without one they are
  reset; then the frame is counted.
\<close>

definition onResults ::
    "bool \<Rightarrow> point list list option \<Rightarrow> number \<Rightarrow> widget \<Rightarrow> js_error + widget" where
  "onResults isTracking_seen multiHandLandmarks now s =
     (if \<not> isTracking_seen then Inr s
      else case canvasRef s of
        None \<Rightarrow> Inr s
      | Some c0 \<Rightarrow>
          if \<not> has_ctx c0 then Inr s
          else
            let w = frame_width (videoRef s);
                h = frame_height (videoRef s);
                c = c0\<lparr>cwidth := w, cheight := h, overlay := None\<rparr>
            in (case multiHandLandmarks of
                  Some (landmarks # _) \<Rightarrow>
                    (case (landmark_at landmarks 4, landmark_at landmarks 6,
                           landmark_at landmarks 8) of
                       (Some thumbTip, Some indexPip', Some indexTip') \<Rightarrow>
                         let newFingertips = fingertips_of thumbTip indexPip' indexTip' w h
                         in Inr (updateFPS now
                                  (updateRobotMapping newFingertips (Fin (real w)) (Fin (real h))
                                    (s\<lparr>fingertips := newFingertips,
                                       canvasRef := Some (drawFingertips newFingertips c)\<rparr>)))
                     | _ \<Rightarrow> Inl TypeError)
                | _ \<Rightarrow>
                    Inr (updateFPS now
                          (s\<lparr>fingertips := no_fingertips, canvasRef := Some c\<rparr>))))"

subsection \<open>stopTracking, startTracking, toggleTracking\<close>

definition stopTracking :: "widget \<Rightarrow> widget" where
  "stopTracking s =
     s\<lparr>isTracking := False,
       cameraRef := map_option (\<lambda>c. c\<lparr>running := False\<rparr>) (cameraRef s),
       canvasRef := map_option (\<lambda>c. if has_ctx c then c\<lparr>overlay := None\<rparr> else c) (canvasRef s),
       fingertips := no_fingertips,
       robotMapping := neutral,
       fps := Fin 0,
       status := ''Tracking stopped''\<rparr>"

text \<open>
  How a start ends: the MediaPipe scripts are not loaded (\<^verbatim>\<open>initializeMediaPipe\<close>
  throws before it creates anything), the camera's \<^verbatim>\<open>start()\<close> rejects, or it
  starts. \<open>isTracking_seen\<close> is the value of \<^verbatim>\<open>isTracking\<close> in the render whose
  \<^verbatim>\<open>startTracking\<close> runs: \<^verbatim>\<open>initializeMediaPipe\<close> registers the
  \<^verbatim>\<open>onResults\<close> of that render and creates the camera with an
  \<^verbatim>\<open>onFrame\<close> of that render. Without a video element no camera is created, and
  \<^verbatim>\<open>cameraRef.current?.start()\<close> starts the camera of an earlier start, if any.
\<close>

datatype start_result = Not_loaded | Camera_rejects | Camera_starts

definition startTracking :: "bool \<Rightarrow> start_result \<Rightarrow> number \<Rightarrow> widget \<Rightarrow> widget" where
  "startTracking isTracking_seen r now s =
     (if r = Not_loaded
      then s\<lparr>isLoading := False, status := ''Failed to start camera or MediaPipe''\<rparr>
      else
        let s1 = s\<lparr>handsRef := Some isTracking_seen,
                   cameraRef := (if videoRef s = None then cameraRef s
                                 else Some \<lparr>running = False,
                                            onFrame_isTracking = isTracking_seen\<rparr>)\<rparr>
        in if cameraRef s1 \<noteq> None \<and> r = Camera_rejects
           then s1\<lparr>isLoading := False, status := ''Failed to start camera or MediaPipe''\<rparr>
           else s1\<lparr>cameraRef := map_option (\<lambda>c. c\<lparr>running := True\<rparr>) (cameraRef s1),
                   isTracking := True, isLoading := False, status := ''Hand tracking active'',
                   frameCountRef := Fin 0, lastTimeRef := now\<rparr>)"

text \<open>The button calls the \<^verbatim>\<open>toggleTracking\<close> of the latest render.\<close>

definition toggleTracking :: "start_result \<Rightarrow> number \<Rightarrow> widget \<Rightarrow> widget" where
  "toggleTracking r now s =
     (if isTracking s then stopTracking s else startTracking (isTracking s) r now s)"

subsection \<open>Frames\<close>

text \<open>
  MediaPipe hands the results of a frame to the \<^verbatim>\<open>onResults\<close> that is registered.
  The running camera calls its \<^verbatim>\<open>onFrame\<close> for every frame, and it sends the frame
  to Hands only if the \<^verbatim>\<open>isTracking\<close> it reads holds and there is a Hands object.
\<close>

definition deliver :: "point list list option \<Rightarrow> number \<Rightarrow> widget \<Rightarrow> js_error + widget" where
  "deliver results now s =
     (case handsRef s of None \<Rightarrow> Inr s | Some seen \<Rightarrow> onResults seen results now s)"

definition onFrame :: "point list list option \<Rightarrow> number \<Rightarrow> widget \<Rightarrow> js_error + widget" where
  "onFrame results now s =
     (case cameraRef s of
        None \<Rightarrow> Inr s
      | Some c \<Rightarrow>
          if running c \<and> onFrame_isTracking c \<and> handsRef s \<noteq> None
          then deliver results now s else Inr s)"

text \<open>
  The events of the widget: a click on the button, with the way the start ends and
  the time; a frame of the camera, with what MediaPipe finds in it; and results
  handed to the registered callback directly.
\<close>

datatype widget_event =
    Click start_result number
  | Camera_frame "point list list option" number
  | Results "point list list option" number

definition widget_step :: "widget_event \<Rightarrow> widget \<Rightarrow> js_error + widget" where
  "widget_step e s =
     (case e of
        Click r now \<Rightarrow> Inr (toggleTracking r now s)
      | Camera_frame results now \<Rightarrow> onFrame results now s
      | Results results now \<Rightarrow> deliver results now s)"

fun widget_run :: "widget_event list \<Rightarrow> widget \<Rightarrow> js_error + widget" where
  "widget_run [] s = Inr s"
| "widget_run (e # es) s =
     (case widget_step e s of Inl err \<Rightarrow> Inl err | Inr s' \<Rightarrow> widget_run es s')"

subsection \<open>The landmark set of the end-to-end scenario\<close>

text \<open>
  The literals of the scenario as doubles: 0.5 is exact, 0.55, 0.52, 0.3 and 0.2 are
  the nearest doubles. Thumb tip (index 4) at (0.5, 0.5, 0), index PIP (index 6) at
  (0.52, 0.3, 0), index tip (index 8) at (0.55, 0.2, 0); the other eighteen landmarks
  of \<open>scenario_hand\<close>, which the widget does not read, are at the origin.
\<close>

definition scenario_thumb :: point where
  "scenario_thumb = \<lparr>px = Fin (1 / 2), py = Fin (1 / 2), pz = Fin 0\<rparr>"

definition scenario_indexPip :: point where
  "scenario_indexPip =
     \<lparr>px = Fin (1170935903116329 / 2251799813685248),
      py = Fin (5404319552844595 / 18014398509481984), pz = Fin 0\<rparr>"

definition scenario_indexTip :: point where
  "scenario_indexTip =
     \<lparr>px = Fin (2476979795053773 / 4503599627370496),
      py = Fin (3602879701896397 / 18014398509481984), pz = Fin 0\<rparr>"

definition origin :: point where
  "origin = \<lparr>px = Fin 0, py = Fin 0, pz = Fin 0\<rparr>"

definition scenario_hand :: "point list" where
  "scenario_hand =
     [origin, origin, origin, origin, scenario_thumb, origin, scenario_indexPip, origin,
      scenario_indexTip, origin, origin, origin, origin, origin, origin, origin, origin,
      origin, origin, origin, origin]"

subsection \<open>Further landmarks used as examples\<close>


text \<open>Two index tips at neighbouring doubles, 0.1875 and 0.18750000000000003, at the height 0.2.\<close>

definition left_indexTip :: point where
  "left_indexTip =
     \<lparr>px = Fin (3 / 16), py = Fin (3602879701896397 / 18014398509481984), pz = Fin 0\<rparr>"

definition left_indexTip_next :: point where
  "left_indexTip_next =
     \<lparr>px = Fin (6755399441055745 / 36028797018963968),
      py = Fin (3602879701896397 / 18014398509481984), pz = Fin 0\<rparr>"

text \<open>
  The index tip of the scenario at the depth 1.5, and an index tip beyond the right
  and lower edges of the frame, at (1.1, 1.25, 1.5).
\<close>

definition deep_indexTip :: point where
  "deep_indexTip = scenario_indexTip\<lparr>pz := Fin (3 / 2)\<rparr>"

definition beyond_indexTip :: point where
  "beyond_indexTip =
     \<lparr>px = Fin (2476979795053773 / 2251799813685248), py = Fin (5 / 4), pz = Fin (3 / 2)\<rparr>"

subsection \<open>The callbacks that are registered\<close>


section \<open>The project page (routes/projects.hand-teleop.tsx)\<close>

text \<open>
  The page's fingertip data has the three points of the widget's and a timestamp
  (\<^verbatim>\<open>Date.now()\<close>, an integer number of milliseconds).
\<close>

record FingertipData_page = FingertipData +
  timestamp :: int

record orientation_angles =
  roll :: number
  pitch :: number
  yaw :: number

record pose =
  position :: point
  orientation :: orientation_angles

record RobotState =
  jointAngles :: "number list"
  endEffectorPose :: pose
  gripperState :: string
  inWorkspace :: bool
  confidence :: number

text \<open>
  The page state. \<open>streamRef\<close> is the handle of the media stream, and \<open>liveStreams\<close>
  lists the streams that still have a running track (the camera is released once its
  stream is no longer there); \<open>srcObject\<close> is the video element's source, \<open>None\<close>
  as well while \<^verbatim>\<open>videoRef.current\<close> is null (\<open>hasVideo\<close> false).
  \<open>animationRef\<close> is the last request id of \<^verbatim>\<open>requestAnimationFrame\<close> (ids
  are positive, so a stored id is truthy) and \<open>pendingFrames\<close> the requests not yet
  run or cancelled. \<open>canvasShows\<close> is what the overlay canvas displays (the landmarks
  drawn, \<open>None\<close> after \<^verbatim>\<open>clearRect\<close>).
\<close>

record page =
  isConnected :: bool
  isCameraActive :: bool
  isTracking_page :: bool
  consoleLogs :: "string list"
  fingertipData :: FingertipData_page
  robotState :: RobotState
  streamRef :: "nat option"
  liveStreams :: "nat list"
  hasVideo :: bool
  srcObject :: "nat option"
  animationRef :: "nat option"
  pendingFrames :: "nat list"
  canvasShows :: "point list option"

definition no_fingertips_at :: "int \<Rightarrow> FingertipData_page" where
  "no_fingertips_at now = \<lparr>thumb = None, indexPip = None, indexTip = None, timestamp = now\<rparr>"

text \<open>The page as its initialisers leave it.\<close>

definition initial_page :: page where
  "initial_page =
     \<lparr>isConnected = False, isCameraActive = False, isTracking_page = False, consoleLogs = [],
      fingertipData = no_fingertips_at 0,
      robotState =
        \<lparr>jointAngles = [Fin 0, Fin 0, Fin 0, Fin 0, Fin 0, Fin 0],
         endEffectorPose =
           \<lparr>position = \<lparr>px = Fin 0, py = Fin 0, pz = Fin 0\<rparr>,
            orientation = \<lparr>roll = Fin 0, pitch = Fin 0, yaw = Fin 0\<rparr>\<rparr>,
         gripperState = ''open'', inWorkspace = True, confidence = Fin 0\<rparr>,
      streamRef = None, liveStreams = [], hasVideo = True, srcObject = None,
      animationRef = None, pendingFrames = [], canvasShows = None\<rparr>"

text \<open>
  \<^verbatim>\<open>setConsoleLogs(prev => [`[${timestamp}] ${message}`, ...prev].slice(0, 50))\<close>;
  \<open>time\<close> is the text \<^verbatim>\<open>new Date().toLocaleTimeString()\<close> gives.
\<close>

definition addToConsole :: "string \<Rightarrow> string \<Rightarrow> page \<Rightarrow> page" where
  "addToConsole time message s =
     s\<lparr>consoleLogs := take 50 ((''['' @ time @ ''] '' @ message) # consoleLogs s)\<rparr>"

definition stopTracking_page :: "string \<Rightarrow> page \<Rightarrow> page" where
  "stopTracking_page time s =
     (let s1 = addToConsole time ''Hand tracking stopped'' (s\<lparr>isTracking_page := False\<rparr>)
      in case animationRef s1 of
           None \<Rightarrow> s1
         | Some r \<Rightarrow> s1\<lparr>pendingFrames := removeAll r (pendingFrames s1)\<rparr>)"

text \<open>
  \<open>stopCamera\<close> reads the clock once for each line it logs: \<open>time1\<close> in
  \<open>stopTracking\<close>, \<open>time2\<close> for its own line.
\<close>

definition stopCamera :: "string \<Rightarrow> string \<Rightarrow> page \<Rightarrow> page" where
  "stopCamera time1 time2 s =
     (let s1 = (if isTracking_page s then stopTracking_page time1 s else s);
          s2 = (case streamRef s1 of
                  None \<Rightarrow> s1
                | Some m \<Rightarrow> s1\<lparr>liveStreams := removeAll m (liveStreams s1), streamRef := None\<rparr>);
          s3 = (if hasVideo s2 then s2\<lparr>srcObject := None\<rparr> else s2)
      in addToConsole time2 ''Camera stopped'' (s3\<lparr>isCameraActive := False\<rparr>))"

subsection \<open>The callback of processHandTracking that receives the tracking result\<close>

text \<open>
  The current revision of the page sends each frame to the tracking endpoint. The
  body of the response, as far as the callback reads it: \<^verbatim>\<open>data.fingertips\<close>
  (absent, or an object whose three points may be absent), \<^verbatim>\<open>data.hand_detected\<close>
  and \<^verbatim>\<open>data.robot_control\<close> (absent, or an object whose fields may be absent).
\<close>

record api_fingertips =
  thumb_of :: "point option"
  index_pip_of :: "point option"
  index_tip_of :: "point option"

record api_robot_control =
  joint_angles :: "number list option"
  end_effector_pose :: "pose option"
  gripper_state :: "string option"
  in_workspace :: "bool option"
  confidence_of :: "number option"

record track_data =
  data_fingertips :: "api_fingertips option"
  data_hand_detected :: bool
  data_robot_control :: "api_robot_control option"

text \<open>
  What the request gives for one frame: no blob to send; the \<^verbatim>\<open>try\<close> body
  throws (the request fails, or the response cannot be read), with the message of the
  \<^verbatim>\<open>Error\<close> thrown, or \<open>None\<close> for another value; a response that is not
  \<^verbatim>\<open>ok\<close>; or a response with its data and the text of
  \<^verbatim>\<open>data.robot_control?.confidence?.toFixed(2) || 0\<close>.
\<close>

datatype tracking =
    NoBlob
  | Throws "string option"
  | NotOk
  | Ok track_data string





text \<open>
  The earlier revision of the page that the file still contains (lines 191 to 936) has
  another \<^verbatim>\<open>catch\<close> block: ``Fall back to simulated data''. \<open>random k\<close> is the
  value of the \<open>k\<close>-th call of \<^verbatim>\<open>Math.random()\<close> in the block.
\<close>

definition simulatedData :: "(nat \<Rightarrow> number) \<Rightarrow> int \<Rightarrow> FingertipData_page" where
  "simulatedData random now =
     \<lparr>thumb = Some \<lparr>px = nmul (random 0) (Fin 100), py = nmul (random 1) (Fin 100),
                     pz = nmul (random 2) (Fin 100)\<rparr>,
      indexPip = Some \<lparr>px = nmul (random 3) (Fin 100), py = nmul (random 4) (Fin 100),
                        pz = nmul (random 5) (Fin 100)\<rparr>,
      indexTip = Some \<lparr>px = nmul (random 6) (Fin 100), py = nmul (random 7) (Fin 100),
                        pz = nmul (random 8) (Fin 100)\<rparr>,
      timestamp = now\<rparr>"

definition catch_earlier_revision ::
    "string option \<Rightarrow> (nat \<Rightarrow> number) \<Rightarrow> int \<Rightarrow> string \<Rightarrow> page \<Rightarrow> page" where
  "catch_earlier_revision e random now time s =
     (addToConsole time
        (''API Error: '' @ (case e of Some message \<Rightarrow> message | None \<Rightarrow> ''Unknown error''))
        s)
     \<lparr>fingertipData := simulatedData random now\<rparr>"


section \<open>The streaming channel (docs/frontend-integration-example.tsx)\<close>

text \<open>
  Every \<^verbatim>\<open>WebSocket\<close> the component creates is an entry of \<open>sockets\<close>, its
  \<^verbatim>\<open>readyState\<close>; a socket is named by its position. All of them carry the same
  four handlers, which reach the component through its refs. \<open>timers\<close> are the pending
  timeouts in the order they were set, each with its delay in milliseconds;
  \<^verbatim>\<open>setTimeout\<close> hands out the ids 1, 2, ... (never 0, so an id is truthy).
  \<open>sent\<close> records the messages sent, with the socket.
\<close>

datatype ready_state = CONNECTING | OPEN | CLOSING | CLOSED

datatype client_message = Start_tracking string | Stop_tracking | Ping

datatype server_message =
    Config | Tracking_result string | Config_update | Pong | Unknown_type | Malformed

record integration =
  isConnected_ws :: bool
  isTracking_ws :: bool
  robotType :: string
  trackingData :: "string option"
  connectionStatus :: string
  wsRef :: "nat option"
  reconnectTimeoutRef :: "nat option"
  sockets :: "ready_state list"
  timers :: "(nat \<times> nat) list"
  timerCount :: nat
  sent :: "(nat \<times> client_message) list"

definition initial_integration :: integration where
  "initial_integration =
     \<lparr>isConnected_ws = False, isTracking_ws = False, robotType = ''SO-101'',
      trackingData = None, connectionStatus = ''disconnected'', wsRef = None,
      reconnectTimeoutRef = None, sockets = [], timers = [], timerCount = 0, sent = []\<rparr>"

definition clearTimeout :: "nat \<Rightarrow> integration \<Rightarrow> integration" where
  "clearTimeout t s = s\<lparr>timers := filter (\<lambda>(t', d). t' \<noteq> t) (timers s)\<rparr>"

text \<open>\<^verbatim>\<open>wsRef.current?.readyState === WebSocket.OPEN\<close>\<close>

definition ws_is_open :: "integration \<Rightarrow> bool" where
  "ws_is_open s = (case wsRef s of None \<Rightarrow> False | Some k \<Rightarrow> k < length (sockets s) \<and> sockets s ! k = OPEN)"

text \<open>
  \<open>created\<close> says whether \<^verbatim>\<open>new WebSocket(...)\<close> returns a socket; when it throws,
  the \<^verbatim>\<open>catch\<close> sets the status.
\<close>

definition connectWebSocket :: "bool \<Rightarrow> integration \<Rightarrow> integration" where
  "connectWebSocket created s =
     (if ws_is_open s then s
      else if created
      then s\<lparr>wsRef := Some (length (sockets s)), sockets := sockets s @ [CONNECTING]\<rparr>
      else s\<lparr>connectionStatus := ''error''\<rparr>)"

definition onopen :: "integration \<Rightarrow> integration" where
  "onopen s =
     (let s1 = s\<lparr>isConnected_ws := True, connectionStatus := ''connected''\<rparr>
      in case reconnectTimeoutRef s1 of
           None \<Rightarrow> s1
         | Some t \<Rightarrow> (clearTimeout t s1)\<lparr>reconnectTimeoutRef := None\<rparr>)"

text \<open>The timeout's callback is \<open>connectWebSocket\<close>; it runs when the timer fires.\<close>

definition onclose :: "integration \<Rightarrow> integration" where
  "onclose s =
     s\<lparr>isConnected_ws := False, isTracking_ws := False, connectionStatus := ''disconnected'',
       timers := timers s @ [(Suc (timerCount s), 3000)],
       timerCount := Suc (timerCount s),
       reconnectTimeoutRef := Some (Suc (timerCount s))\<rparr>"

definition onerror :: "integration \<Rightarrow> integration" where
  "onerror s = s\<lparr>connectionStatus := ''error''\<rparr>"

definition handleWebSocketMessage :: "server_message \<Rightarrow> integration \<Rightarrow> integration" where
  "handleWebSocketMessage message s =
     (case message of
        Tracking_result d \<Rightarrow> s\<lparr>trackingData := Some d\<rparr>
      | _ \<Rightarrow> s)"

text \<open>
  \<^verbatim>\<open>close()\<close> on a socket that is connecting or open starts the closing handshake;
  on a closing or closed one it does nothing. The close event comes later.
\<close>

definition close_socket :: "nat \<Rightarrow> integration \<Rightarrow> integration" where
  "close_socket k s =
     (if k < length (sockets s) \<and> (sockets s ! k = CONNECTING \<or> sockets s ! k = OPEN)
      then s\<lparr>sockets := (sockets s)[k := CLOSING]\<rparr> else s)"

definition disconnectWebSocket :: "integration \<Rightarrow> integration" where
  "disconnectWebSocket s =
     (let s1 = (case wsRef s of
                  None \<Rightarrow> s
                | Some k \<Rightarrow> (close_socket k s)\<lparr>wsRef := None\<rparr>)
      in case reconnectTimeoutRef s1 of
           None \<Rightarrow> s1
         | Some t \<Rightarrow> (clearTimeout t s1)\<lparr>reconnectTimeoutRef := None\<rparr>)"

text \<open>\<^verbatim>\<open>if (wsRef.current?.readyState === WebSocket.OPEN) wsRef.current.send(...)\<close>\<close>

definition send_if_open :: "client_message \<Rightarrow> integration \<Rightarrow> integration" where
  "send_if_open m s =
     (case wsRef s of
        None \<Rightarrow> s
      | Some k \<Rightarrow> if ws_is_open s then s\<lparr>sent := sent s @ [(k, m)]\<rparr> else s)"

definition startTracking_ws :: "bool \<Rightarrow> integration \<Rightarrow> integration" where
  "startTracking_ws created s =
     (if \<not> isConnected_ws s then connectWebSocket created s
      else send_if_open (Start_tracking (robotType s))
             (s\<lparr>isTracking_ws := True, connectionStatus := ''tracking''\<rparr>))"

definition stopTracking_ws :: "integration \<Rightarrow> integration" where
  "stopTracking_ws s =
     send_if_open Stop_tracking (s\<lparr>isTracking_ws := False, connectionStatus := ''connected''\<rparr>)"

subsection \<open>The events that drive the component\<close>

text \<open>
  The user's clicks (a button can be clicked while it is rendered: Connect while not
  connected, Start while connected and not tracking, Stop while tracking, Disconnect
  always), the unmount of the component, and what the browser delivers: a connecting
  socket opens; a socket that is not closed yet reports an error, receives a message
  (when open) or closes, whether its connection failed, the peer or the network ended
  it, or \<^verbatim>\<open>close()\<close> was called on it; the oldest pending timer fires (all
  timeouts have the same delay, so they fire in the order they were set), which takes
  it from the pending ones and runs its callback \<open>connectWebSocket\<close>. An event that
  cannot happen in a state gives \<open>None\<close>. The flag of the events that may create a
  socket says whether the constructor returns one.
\<close>

datatype event =
    Click_connect bool
  | Click_start bool
  | Click_stop
  | Click_disconnect
  | Unmount
  | Socket_opens nat
  | Socket_error nat
  | Socket_message nat server_message
  | Socket_closes nat
  | Timer_fires nat bool

definition step :: "event \<Rightarrow> integration \<Rightarrow> integration option" where
  "step e s =
     (case e of
        Click_connect created \<Rightarrow>
          if \<not> isConnected_ws s then Some (connectWebSocket created s) else None
      | Click_start created \<Rightarrow>
          if isConnected_ws s \<and> \<not> isTracking_ws s then Some (startTracking_ws created s) else None
      | Click_stop \<Rightarrow>
          if isConnected_ws s \<and> isTracking_ws s then Some (stopTracking_ws s) else None
      | Click_disconnect \<Rightarrow> Some (disconnectWebSocket s)
      | Unmount \<Rightarrow> Some (disconnectWebSocket s)
      | Socket_opens k \<Rightarrow>
          if k < length (sockets s) \<and> sockets s ! k = CONNECTING
          then Some (onopen (s\<lparr>sockets := (sockets s)[k := OPEN]\<rparr>)) else None
      | Socket_error k \<Rightarrow>
          if k < length (sockets s) \<and> sockets s ! k \<noteq> CLOSED then Some (onerror s) else None
      | Socket_message k m \<Rightarrow>
          if k < length (sockets s) \<and> sockets s ! k = OPEN
          then Some (case m of Malformed \<Rightarrow> s | _ \<Rightarrow> handleWebSocketMessage m s) else None
      | Socket_closes k \<Rightarrow>
          if k < length (sockets s) \<and> sockets s ! k \<noteq> CLOSED
          then Some (onclose (s\<lparr>sockets := (sockets s)[k := CLOSED]\<rparr>)) else None
      | Timer_fires t created \<Rightarrow>
          (case timers s of
             [] \<Rightarrow> None
           | (t', delay) # _ \<Rightarrow>
               if t' = t then Some (connectWebSocket created (clearTimeout t s)) else None))"

fun run :: "event list \<Rightarrow> integration \<Rightarrow> integration option" where
  "run [] s = Some s"
| "run (e # es) s = (case step e s of None \<Rightarrow> None | Some s' \<Rightarrow> run es s')"

section \<open>Rounding to the nearest double\<close>

lemma rne_lower: "\<lfloor>q\<rfloor> \<le> rne q"
  by (simp add: rne_def Let_def)

lemma rne_upper: "rne q \<le> \<lceil>q\<rceil>"
  unfolding rne_def Let_def by (auto simp: ceiling_altdef)

lemma rne_of_int [simp]: "rne (of_int n) = n"
  by (simp add: rne_def)

lemma rne_zero [simp]: "rne 0 = 0"
  using rne_of_int [of 0] by simp

lemma rne_mono: "q \<le> q' \<Longrightarrow> rne q \<le> rne q'"
proof -
  assume le: "q \<le> q'"
  have fl: "\<lfloor>q\<rfloor> \<le> \<lfloor>q'\<rfloor>" using le by (rule floor_mono)
  show ?thesis
  proof (cases "\<lfloor>q\<rfloor> = \<lfloor>q'\<rfloor>")
    case True
    then show ?thesis using le by (auto simp: rne_def Let_def)
  next
    case False
    then have "\<lfloor>q\<rfloor> + 1 \<le> \<lfloor>q'\<rfloor>" using fl by linarith
    moreover have "rne q \<le> \<lfloor>q\<rfloor> + 1" by (simp add: rne_def Let_def)
    ultimately show ?thesis using rne_lower [of q'] by linarith
  qed
qed

lemma rne_eqI: "\<bar>q - of_int m\<bar> < 1 / 2 \<Longrightarrow> rne q = m"
proof -
  assume a: "\<bar>q - of_int m\<bar> < 1 / 2"
  show ?thesis
  proof (cases "of_int m \<le> q")
    case True
    then have "\<lfloor>q\<rfloor> = m" using a by (intro floor_unique) auto
    then show ?thesis using a True by (simp add: rne_def Let_def)
  next
    case False
    then have "\<lfloor>q\<rfloor> = m - 1" using a by (intro floor_unique) auto
    then show ?thesis using a False by (simp add: rne_def Let_def)
  qed
qed

lemma rne_tie_up: "even m \<Longrightarrow> q = of_int m - 1 / 2 \<Longrightarrow> rne q = m"
proof -
  assume e: "even m" and q: "q = of_int m - 1 / 2"
  have "\<lfloor>q\<rfloor> = m - 1" using q by (intro floor_unique) auto
  then show ?thesis using q e by (simp add: rne_def Let_def)
qed

lemma rne_tie_down: "even m \<Longrightarrow> q = of_int m + 1 / 2 \<Longrightarrow> rne q = m"
proof -
  assume e: "even m" and q: "q = of_int m + 1 / 2"
  have "\<lfloor>q\<rfloor> = m" using q by (intro floor_unique) auto
  then show ?thesis using q e by (simp add: rne_def Let_def)
qed

lemma rne_minus: "rne (- q) = - rne q"
proof (cases "q = of_int \<lfloor>q\<rfloor>")
  case True
  then obtain n :: int where "q = of_int n" by metis
  then have "- q = of_int (- n)" by simp
  then show ?thesis using \<open>q = of_int n\<close> by (metis rne_of_int)
next
  case False
  then have lt: "of_int \<lfloor>q\<rfloor> < q" by (smt (verit) of_int_floor_le)
  have fm: "\<lfloor>- q\<rfloor> = - \<lfloor>q\<rfloor> - 1"
    using lt by (intro floor_unique) (auto, linarith)
  show ?thesis
    using lt by (auto simp: rne_def Let_def fm)
qed

lemma bexp_eqI:
  assumes "2 powr (of_int e) \<le> \<bar>x\<bar>" and "\<bar>x\<bar> < 2 powr (of_int e + 1)" and "- 1022 \<le> e"
  shows "bexp x = e"
proof -
  have pos: "0 < \<bar>x\<bar>" using assms(1) by (smt (verit) powr_gt_zero)
  have "\<lfloor>log 2 \<bar>x\<bar>\<rfloor> = e"
    using assms(1,2) pos by (simp add: floor_log_eq_powr_iff)
  then show ?thesis using assms(3) by (simp add: bexp_def)
qed

lemma ulp_pos: "0 < ulp x"
  by (simp add: ulp_def)

lemma ulp_minus [simp]: "ulp (- x) = ulp x"
  by (simp add: ulp_def bexp_def)

lemma g64_minus: "g64 (- x) = - g64 x"
  by (simp add: g64_def rne_minus)

lemma g64_zero [simp]: "g64 0 = 0"
  by (simp add: g64_def)

lemma g64_nonneg: "0 \<le> x \<Longrightarrow> 0 \<le> g64 x"
proof -
  assume "0 \<le> x"
  then have "0 \<le> x / ulp x" using ulp_pos [of x] by simp
  then have "0 \<le> \<lfloor>x / ulp x\<rfloor>" by simp
  then have "0 \<le> rne (x / ulp x)" using rne_lower [of "x / ulp x"] by linarith
  then show ?thesis using ulp_pos [of x] by (simp add: g64_def)
qed

lemma bexp_mono: "0 < x \<Longrightarrow> x \<le> y \<Longrightarrow> bexp x \<le> bexp y"
proof -
  assume "0 < x" "x \<le> y"
  then have "log 2 \<bar>x\<bar> \<le> log 2 \<bar>y\<bar>" by simp
  then have "\<lfloor>log 2 \<bar>x\<bar>\<rfloor> \<le> \<lfloor>log 2 \<bar>y\<bar>\<rfloor>" by (rule floor_mono)
  then show ?thesis by (simp add: bexp_def)
qed

lemma below_next_binade: "0 < x \<Longrightarrow> x < 2 powr (of_int (bexp x) + 1)"
proof -
  assume pos: "0 < x"
  have "log 2 x < of_int \<lfloor>log 2 x\<rfloor> + 1" by linarith
  also have "\<dots> \<le> of_int (bexp x) + 1" using pos by (simp add: bexp_def)
  finally have "log 2 x < of_int (bexp x) + 1" .
  then show ?thesis using pos by (simp add: log_less_iff)
qed

lemma above_binade: "0 < x \<Longrightarrow> - 1022 < bexp x \<Longrightarrow> 2 powr (of_int (bexp x)) \<le> x"
proof -
  assume pos: "0 < x" and "- 1022 < bexp x"
  then have "bexp x = \<lfloor>log 2 x\<rfloor>" by (simp add: bexp_def max_def split: if_splits)
  then have "of_int (bexp x) \<le> log 2 x" by simp
  then show ?thesis using pos by (simp add: le_log_iff)
qed

lemma ulp_times_53: "ulp x * 2 ^ 53 = 2 powr (of_int (bexp x) + 1)"
proof -
  have "(2::real) ^ 53 = 2 powr 53" by simp
  then have "ulp x * 2 ^ 53 = 2 powr (of_int (bexp x - 52)) * 2 powr 53"
    by (simp only: ulp_def)
  also have "\<dots> = 2 powr (of_int (bexp x - 52) + 53)" by (simp only: powr_add)
  also have "of_int (bexp x - 52) + (53::real) = of_int (bexp x) + 1" by simp
  finally show ?thesis .
qed

lemma ulp_times_52: "ulp x * 2 ^ 52 = 2 powr (of_int (bexp x))"
proof -
  have "(2::real) ^ 52 = 2 powr 52" by simp
  then have "ulp x * 2 ^ 52 = 2 powr (of_int (bexp x - 52)) * 2 powr 52"
    by (simp only: ulp_def)
  also have "\<dots> = 2 powr (of_int (bexp x - 52) + 52)" by (simp only: powr_add)
  also have "of_int (bexp x - 52) + (52::real) = of_int (bexp x)" by simp
  finally show ?thesis .
qed

text \<open>A positive value is rounded to a double of its interval, or to the next power of two.\<close>

lemma g64_upper: "0 < x \<Longrightarrow> g64 x \<le> 2 powr (of_int (bexp x) + 1)"
proof -
  assume pos: "0 < x"
  have "x / ulp x < 2 ^ 53"
    using below_next_binade [OF pos] ulp_pos [of x] ulp_times_53 [of x] by (simp add: field_simps)
  then have "\<lceil>x / ulp x\<rceil> \<le> 2 ^ 53"
    by (simp add: ceiling_le_iff)
  then have "rne (x / ulp x) \<le> 2 ^ 53" using rne_upper [of "x / ulp x"] by linarith
  then have "(of_int (rne (x / ulp x)) :: real) \<le> 2 ^ 53"
    by (metis of_int_le_iff of_int_numeral of_int_power)
  then have "g64 x \<le> 2 ^ 53 * ulp x"
    using ulp_pos [of x] by (simp add: g64_def)
  then show ?thesis using ulp_times_53 [of x] by (simp add: mult.commute)
qed

lemma g64_lower: "0 < x \<Longrightarrow> - 1022 < bexp x \<Longrightarrow> 2 powr (of_int (bexp x)) \<le> g64 x"
proof -
  assume pos: "0 < x" and big: "- 1022 < bexp x"
  have "2 ^ 52 \<le> x / ulp x"
    using above_binade [OF pos big] ulp_pos [of x] ulp_times_52 [of x] by (simp add: field_simps)
  then have "2 ^ 52 \<le> \<lfloor>x / ulp x\<rfloor>"
    by (simp add: le_floor_iff)
  then have "2 ^ 52 \<le> rne (x / ulp x)" using rne_lower [of "x / ulp x"] by linarith
  then have "(2::real) ^ 52 \<le> of_int (rne (x / ulp x))"
    by (metis of_int_le_iff of_int_numeral of_int_power)
  then have "2 ^ 52 * ulp x \<le> g64 x"
    using ulp_pos [of x] by (simp add: g64_def)
  then show ?thesis using ulp_times_52 [of x] by (simp add: mult.commute)
qed

lemma g64_mono_pos: "0 < x \<Longrightarrow> x \<le> y \<Longrightarrow> g64 x \<le> g64 y"
proof -
  assume pos: "0 < x" and le: "x \<le> y"
  have ypos: "0 < y" using pos le by simp
  have be: "bexp x \<le> bexp y" using pos le by (rule bexp_mono)
  show ?thesis
  proof (cases "bexp x = bexp y")
    case True
    then have u: "ulp x = ulp y" by (simp add: ulp_def)
    have "x / ulp y \<le> y / ulp y" using le ulp_pos [of y] by (simp add: divide_right_mono)
    then have "rne (x / ulp y) \<le> rne (y / ulp y)" by (rule rne_mono)
    then show ?thesis using ulp_pos [of y] by (simp add: g64_def u)
  next
    case False
    then have lt: "bexp x + 1 \<le> bexp y" using be by linarith
    have "- 1022 \<le> bexp x" by (simp add: bexp_def)
    then have big: "- 1022 < bexp y" using lt by linarith
    have "g64 x \<le> 2 powr (of_int (bexp x) + 1)" using pos by (rule g64_upper)
    also have "\<dots> \<le> 2 powr (of_int (bexp y))"
    proof -
      have "(of_int (bexp x) + 1 :: real) \<le> of_int (bexp y)" using lt by linarith
      then show ?thesis by simp
    qed
    also have "\<dots> \<le> g64 y" using ypos big by (rule g64_lower)
    finally show ?thesis .
  qed
qed

lemma g64_mono: "x \<le> y \<Longrightarrow> g64 x \<le> g64 y"
proof -
  assume le: "x \<le> y"
  consider "0 < x" | "x \<le> 0" "0 \<le> y" | "y < 0" by linarith
  then show ?thesis
  proof cases
    case 1
    then show ?thesis using le by (rule g64_mono_pos)
  next
    case 2
    have "g64 x \<le> 0" using g64_nonneg [of "- x"] 2(1) by (simp add: g64_minus)
    moreover have "0 \<le> g64 y" using 2(2) by (rule g64_nonneg)
    ultimately show ?thesis by linarith
  next
    case 3
    then have "g64 (- y) \<le> g64 (- x)" using le by (intro g64_mono_pos) auto
    then show ?thesis by (simp add: g64_minus)
  qed
qed

lemma round64_zero [simp]: "round64 0 = Fin 0"
  by (simp add: round64_def)

lemma round64_not_NaN [simp]: "round64 x \<noteq> NaN"
  by (simp add: round64_def)

text \<open>Rounding keeps the order: a larger exact result never gives a smaller double.\<close>

lemma round64_mono: "x \<le> y \<Longrightarrow> nle (round64 x) (round64 y)"
proof -
  assume le: "x \<le> y"
  have m: "g64 x \<le> g64 y" using le by (rule g64_mono)
  have sx: "z \<le> 0 \<Longrightarrow> g64 z \<le> 0" for z
    using g64_nonneg [of "- z"] by (simp add: g64_minus)
  have sy: "0 \<le> z \<Longrightarrow> 0 \<le> g64 z" for z by (rule g64_nonneg)
  show ?thesis
    unfolding round64_def nle_def using m le sx [of x] sx [of y] sy [of x] sy [of y]
    by (auto split: if_splits)
qed

text \<open>
  How a given value is rounded: it lies in the interval of exponent \<open>e\<close>, and \<open>m\<close>
  is the multiple of the spacing nearest to it, or the even one of the two nearest.
\<close>

lemma round64_rneI:
  assumes lo: "2 powr (of_int e) \<le> \<bar>x\<bar>" and hi: "\<bar>x\<bar> < 2 powr (of_int e + 1)"
    and e1: "- 1022 \<le> e" and e2: "e \<le> 1022"
    and r: "rne (x / 2 powr (of_int (e - 52))) = m"
  shows "round64 x = Fin (of_int m * 2 powr (of_int (e - 52)))"
proof -
  define u :: real where "u = 2 powr (of_int (e - 52))"
  have be: "bexp x = e" using lo hi e1 by (rule bexp_eqI)
  have ulp: "ulp x = u" by (simp add: ulp_def be u_def)
  have g: "g64 x = of_int m * u" using r by (simp add: g64_def ulp u_def)
  have xn: "x \<noteq> 0" using lo by (smt (verit) powr_gt_zero)
  have ab: "\<bar>g64 x\<bar> \<le> 2 powr (of_int e + 1)"
  proof (cases "0 < x")
    case True
    then show ?thesis using g64_upper [OF True] g64_nonneg [of x] by (simp add: be)
  next
    case False
    then have p: "0 < - x" using xn by simp
    have "bexp (- x) = e" using be by (simp add: bexp_def)
    then show ?thesis using g64_upper [OF p] g64_nonneg [of "- x"] p
      by (simp add: g64_minus)
  qed
  have "(of_int e + 1 :: real) \<le> 1023" using e2 by simp
  then have "(2::real) powr (of_int e + 1) \<le> 2 powr 1023" by (simp only: powr_mono)
  moreover have "(2::real) powr 1023 < 2 powr 1024" by simp
  ultimately have "\<bar>g64 x\<bar> < 2 powr 1024" using ab by linarith
  then have "round64 x = Fin (of_int m * u)"
    using xn by (simp add: round64_def g)
  then show ?thesis unfolding u_def .
qed

lemma round64_eqI:
  assumes lo: "2 powr (of_int e) \<le> \<bar>x\<bar>" and hi: "\<bar>x\<bar> < 2 powr (of_int e + 1)"
    and e1: "- 1022 \<le> e" and e2: "e \<le> 1022"
    and near: "\<bar>x / 2 powr (of_int (e - 52)) - of_int m\<bar> < 1 / 2"
  shows "round64 x = Fin (of_int m * 2 powr (of_int (e - 52)))"
  using lo hi e1 e2 rne_eqI [OF near] by (rule round64_rneI)

lemma round64_tieI:
  assumes lo: "2 powr (of_int e) \<le> \<bar>x\<bar>" and hi: "\<bar>x\<bar> < 2 powr (of_int e + 1)"
    and e1: "- 1022 \<le> e" and e2: "e \<le> 1022"
    and ev: "even m"
    and tie: "x / 2 powr (of_int (e - 52)) = of_int m + 1 / 2
              \<or> x / 2 powr (of_int (e - 52)) = of_int m - 1 / 2"
  shows "round64 x = Fin (of_int m * 2 powr (of_int (e - 52)))"
proof -
  have "rne (x / 2 powr (of_int (e - 52))) = m"
    using tie rne_tie_down [OF ev] rne_tie_up [OF ev] by blast
  with lo hi e1 e2 show ?thesis by (rule round64_rneI)
qed

subsection \<open>The operations keep the order\<close>

lemma nle_Fin [simp]: "nle (Fin x) (Fin y) \<longleftrightarrow> x \<le> y"
  by (simp add: nle_def)

lemma nless_Fin [simp]: "nless (Fin x) (Fin y) \<longleftrightarrow> x < y"
  by (simp add: nless_def)

lemma nle_PInf [simp]: "nle a PInf \<longleftrightarrow> a \<noteq> NaN"
  by (simp add: nle_def split: number.splits)

lemma nle_NInf [simp]: "nle NInf b \<longleftrightarrow> b \<noteq> NaN"
  by (simp add: nle_def split: number.splits)

lemma nle_NaN [simp]: "\<not> nle NaN b" "\<not> nle a NaN"
  by (simp_all add: nle_def split: number.splits)

lemma nle_PInf_left [simp]: "nle PInf b \<longleftrightarrow> b = PInf"
  by (simp add: nle_def split: number.splits)

lemma nle_NInf_right [simp]: "nle a NInf \<longleftrightarrow> a = NInf"
  by (simp add: nle_def split: number.splits)

lemma ndiv_mono:
  "0 < w \<Longrightarrow> a \<le> a' \<Longrightarrow> nle (ndiv (Fin a) (Fin w)) (ndiv (Fin a') (Fin w))"
  by (simp add: ndiv_def round64_mono divide_right_mono)

lemma nsub_mono: "nle p q \<Longrightarrow> nle (nsub p (Fin c)) (nsub q (Fin c))"
  by (cases p; cases q) (simp_all add: nsub_def nadd_def nneg_def round64_mono)

lemma nmul_pos_mono: "0 < c \<Longrightarrow> nle p q \<Longrightarrow> nle (nmul p (Fin c)) (nmul q (Fin c))"
  by (cases p; cases q) (simp_all add: nmul_def inf_of_def round64_mono mult_right_mono)

lemma nmul_neg_anti: "c < 0 \<Longrightarrow> nle p q \<Longrightarrow> nle (nmul q (Fin c)) (nmul p (Fin c))"
  by (cases p; cases q) (simp_all add: nmul_def inf_of_def round64_mono mult_right_mono_neg)

subsection \<open>The roundings of the examples\<close>

lemma r_320: "round64 (320) = Fin (320)"
  using round64_eqI [of "8" "320" "5629499534213120"]
  by (simp add: powr_neg_numeral)

lemma r_240: "round64 (240) = Fin (240)"
  using round64_eqI [of "7" "240" "8444249301319680"]
  by (simp add: powr_neg_numeral)

lemma r_tip_x: "round64 (12384898975268865 / 35184372088832) = Fin (352)"
  using round64_tieI [of "8" "12384898975268865 / 35184372088832" "6192449487634432"]
  by (simp add: powr_neg_numeral)

lemma r_tip_y: "round64 (54043195528445955 / 562949953421312) = Fin (96)"
  using round64_eqI [of "6" "54043195528445955 / 562949953421312" "6755399441055744"]
  by (simp add: powr_neg_numeral)

lemma r_pip_x: "round64 (5854679515581645 / 17592186044416) = Fin (5854679515581645 / 17592186044416)"
  using round64_eqI [of "8" "5854679515581645 / 17592186044416" "5854679515581645"]
  by (simp add: powr_neg_numeral)

lemma r_pip_y: "round64 (81064793292668925 / 562949953421312) = Fin (144)"
  using round64_eqI [of "7" "81064793292668925 / 562949953421312" "5066549580791808"]
  by (simp add: powr_neg_numeral)

lemma r_11_20: "round64 (11 / 20) = Fin (2476979795053773 / 4503599627370496)"
  using round64_eqI [of "- 1" "11 / 20" "4953959590107546"]
  by (simp add: powr_neg_numeral)

lemma r_x_sub: "round64 (225179981368525 / 4503599627370496) = Fin (225179981368525 / 4503599627370496)"
  using round64_eqI [of "- 5" "225179981368525 / 4503599627370496" "7205759403792800"]
  by (simp add: powr_neg_numeral)

lemma r_x_mul: "round64 (225179981368525 / 2251799813685248) = Fin (225179981368525 / 2251799813685248)"
  using round64_eqI [of "- 4" "225179981368525 / 2251799813685248" "7205759403792800"]
  by (simp add: powr_neg_numeral)

lemma r_1_5: "round64 (1 / 5) = Fin (3602879701896397 / 18014398509481984)"
  using round64_eqI [of "- 3" "1 / 5" "7205759403792794"]
  by (simp add: powr_neg_numeral)

lemma r_y_sub: "round64 (- (5404319552844595 / 18014398509481984)) = Fin (- (5404319552844595 / 18014398509481984))"
  using round64_eqI [of "- 2" "- (5404319552844595 / 18014398509481984)" "- 5404319552844595"]
  by (simp add: powr_neg_numeral)

lemma r_y_mul: "round64 (5404319552844595 / 9007199254740992) = Fin (5404319552844595 / 9007199254740992)"
  using round64_eqI [of "- 1" "5404319552844595 / 9007199254740992" "5404319552844595"]
  by (simp add: powr_neg_numeral)

lemma r_m32: "round64 (- 32) = Fin (- 32)"
  using round64_eqI [of "5" "- 32" "- 4503599627370496"]
  by (simp add: powr_neg_numeral)

lemma r_144: "round64 (144) = Fin (144)"
  using round64_eqI [of "7" "144" "5066549580791808"]
  by (simp add: powr_neg_numeral)

lemma r_1024: "round64 (1024) = Fin (1024)"
  using round64_eqI [of "10" "1024" "4503599627370496"]
  by (simp add: powr_neg_numeral)

lemma r_20736: "round64 (20736) = Fin (20736)"
  using round64_eqI [of "14" "20736" "5699868278390784"]
  by (simp add: powr_neg_numeral)

lemma r_21760: "round64 (21760) = Fin (21760)"
  using round64_eqI [of "14" "21760" "5981343255101440"]
  by (simp add: powr_neg_numeral)






lemma r_50: "round64 (50) = Fin (50)"
  using round64_eqI [of "5" "50" "7036874417766400"]
  by (simp add: powr_neg_numeral)

lemma r_1: "round64 (1) = Fin (1)"
  using round64_eqI [of "0" "1" "4503599627370496"]
  by (simp add: powr_neg_numeral)

lemma r_1_2: "round64 (1 / 2) = Fin (1 / 2)"
  using round64_eqI [of "- 1" "1 / 2" "4503599627370496"]
  by (simp add: powr_neg_numeral)

lemma r_2: "round64 (2) = Fin (2)"
  using round64_eqI [of "1" "2" "4503599627370496"]
  by (simp add: powr_neg_numeral)

lemma r_3: "round64 (3) = Fin (3)"
  using round64_eqI [of "1" "3" "6755399441055744"]
  by (simp add: powr_neg_numeral)

lemma r_11_10: "round64 (11 / 10) = Fin (2476979795053773 / 2251799813685248)"
  using round64_eqI [of "0" "11 / 10" "4953959590107546"]
  by (simp add: powr_neg_numeral)

lemma r_x7_sub: "round64 (1351079888211149 / 2251799813685248) = Fin (1351079888211149 / 2251799813685248)"
  using round64_eqI [of "- 1" "1351079888211149 / 2251799813685248" "5404319552844596"]
  by (simp add: powr_neg_numeral)

lemma r_x7_mul: "round64 (1351079888211149 / 1125899906842624) = Fin (1351079888211149 / 1125899906842624)"
  using round64_eqI [of "0" "1351079888211149 / 1125899906842624" "5404319552844596"]
  by (simp add: powr_neg_numeral)

lemma r_5_4: "round64 (5 / 4) = Fin (5 / 4)"
  using round64_eqI [of "0" "5 / 4" "5629499534213120"]
  by (simp add: powr_neg_numeral)

lemma r_3_4: "round64 (3 / 4) = Fin (3 / 4)"
  using round64_eqI [of "- 1" "3 / 4" "6755399441055744"]
  by (simp add: powr_neg_numeral)

lemma r_m3_2: "round64 (- (3 / 2)) = Fin (- (3 / 2))"
  using round64_eqI [of "0" "- (3 / 2)" "- 6755399441055744"]
  by (simp add: powr_neg_numeral)



lemma r_c7_x: "round64 (12384898975268865 / 17592186044416) = Fin (704)"
  using round64_tieI [of "9" "12384898975268865 / 17592186044416" "6192449487634432"]
  by (simp add: powr_neg_numeral)

lemma r_600: "round64 (600) = Fin (600)"
  using round64_eqI [of "9" "600" "5277655813324800"]
  by (simp add: powr_neg_numeral)

lemma r_m384: "round64 (- 384) = Fin (- 384)"
  using round64_eqI [of "8" "- 384" "- 6755399441055744"]
  by (simp add: powr_neg_numeral)

lemma r_m360: "round64 (- 360) = Fin (- 360)"
  using round64_eqI [of "8" "- 360" "- 6333186975989760"]
  by (simp add: powr_neg_numeral)

lemma r_147456: "round64 (147456) = Fin (147456)"
  using round64_eqI [of "17" "147456" "5066549580791808"]
  by (simp add: powr_neg_numeral)

lemma r_129600: "round64 (129600) = Fin (129600)"
  using round64_eqI [of "16" "129600" "8906044184985600"]
  by (simp add: powr_neg_numeral)

lemma r_277056: "round64 (277056) = Fin (277056)"
  using round64_eqI [of "18" "277056" "4759785836642304"]
  by (simp add: powr_neg_numeral)

lemma r_120: "round64 (120) = Fin (120)"
  using round64_eqI [of "6" "120" "8444249301319680"]
  by (simp add: powr_neg_numeral)

lemma r_c8_p2: "round64 (33776997205278725 / 281474976710656) = Fin (8444249301319681 / 70368744177664)"
  using round64_eqI [of "6" "33776997205278725 / 281474976710656" "8444249301319681"]
  by (simp add: powr_neg_numeral)

lemma r_3_16: "round64 (3 / 16) = Fin (3 / 16)"
  using round64_eqI [of "- 3" "3 / 16" "6755399441055744"]
  by (simp add: powr_neg_numeral)

lemma r_c8_q2: "round64 (8444249301319681 / 45035996273704960) = Fin (6755399441055745 / 36028797018963968)"
  using round64_eqI [of "- 3" "8444249301319681 / 45035996273704960" "6755399441055745"]
  by (simp add: powr_neg_numeral)

lemma r_c8_sub1: "round64 (- (5 / 16)) = Fin (- (5 / 16))"
  using round64_eqI [of "- 2" "- (5 / 16)" "- 5629499534213120"]
  by (simp add: powr_neg_numeral)

lemma r_c8_sub2: "round64 (- (11258999068426239 / 36028797018963968)) = Fin (- (5 / 16))"
  using round64_tieI [of "- 2" "- (11258999068426239 / 36028797018963968)" "- 5629499534213120"]
  by (simp add: powr_neg_numeral)

lemma r_c8_mul: "round64 (- (5 / 8)) = Fin (- (5 / 8))"
  using round64_eqI [of "- 1" "- (5 / 8)" "- 5629499534213120"]
  by (simp add: powr_neg_numeral)


lemma sqrt_21760_between:
  "10380284245597491 / 70368744177664 < sqrt 21760 \<and>
   sqrt 21760 < 10380284245597493 / 70368744177664"
proof
  show "10380284245597491 / 70368744177664 < sqrt 21760"
    by (rule real_less_rsqrt) (simp add: power2_eq_square)
  show "sqrt 21760 < 10380284245597493 / 70368744177664"
    by (rule real_less_lsqrt) (simp_all add: power2_eq_square)
qed

lemma r_sqrt_21760: "round64 (sqrt 21760) = Fin (2595071061399373 / 17592186044416)"
proof -
  define s :: real where "s = sqrt 21760"
  have b1: "10380284245597491 / 70368744177664 < s"
    and b2: "s < 10380284245597493 / 70368744177664"
    using sqrt_21760_between by (simp_all add: s_def)
  have lo: "2 powr (of_int 7) \<le> \<bar>s\<bar>" using b1 by simp
  have hi: "\<bar>s\<bar> < 2 powr (of_int 7 + 1)" using b1 b2 by simp
  have sc: "s / 2 powr (of_int (7 - 52)) = s * 35184372088832"
    by (simp add: powr_neg_numeral)
  have near: "\<bar>s / 2 powr (of_int (7 - 52)) - of_int 5190142122798746\<bar> < 1 / 2"
    unfolding sc using b1 b2 by linarith
  have "round64 s = Fin (of_int 5190142122798746 * 2 powr (of_int (7 - 52)))"
    using lo hi _ _ near by (rule round64_eqI) simp_all
  then show ?thesis by (simp add: s_def powr_neg_numeral)
qed

subsection \<open>The rounding error\<close>

text \<open>The rounding error is at most half the distance of neighbouring doubles.\<close>

lemma rne_err: "\<bar>of_int (rne q) - q\<bar> \<le> 1 / 2"
proof -
  have "of_int \<lfloor>q\<rfloor> \<le> q" "q < of_int \<lfloor>q\<rfloor> + 1" by linarith+
  then show ?thesis unfolding rne_def Let_def by (auto simp: abs_le_iff)
qed

lemma g64_err: "\<bar>g64 x - x\<bar> \<le> ulp x / 2"
proof -
  have u: "0 < ulp x" by (rule ulp_pos)
  have "g64 x - x = (of_int (rne (x / ulp x)) - x / ulp x) * ulp x"
    using u by (simp add: g64_def field_simps)
  then have "\<bar>g64 x - x\<bar> = \<bar>of_int (rne (x / ulp x)) - x / ulp x\<bar> * ulp x"
    using u by (simp add: abs_mult)
  also have "\<dots> \<le> 1 / 2 * ulp x"
    using rne_err [of "x / ulp x"] u by (intro mult_right_mono) simp_all
  finally show ?thesis by simp
qed

lemma ulp_unit: "x \<noteq> 0 \<Longrightarrow> \<bar>x\<bar> \<le> 1 \<Longrightarrow> ulp x \<le> 2 powr (- 52)"
proof -
  assume n: "x \<noteq> 0" and a: "\<bar>x\<bar> \<le> 1"
  have "log 2 \<bar>x\<bar> \<le> 0" using n a by (simp add: log_le_zero_cancel_iff)
  then have "\<lfloor>log 2 \<bar>x\<bar>\<rfloor> \<le> 0" by (simp add: floor_le_zero)
  then have "bexp x \<le> 0" by (simp add: bexp_def)
  then have "(of_int (bexp x - 52) :: real) \<le> - 52" by simp
  then show ?thesis unfolding ulp_def by (simp only: powr_mono)
qed

lemma g64_unit_err: "\<bar>x\<bar> \<le> 1 \<Longrightarrow> \<bar>g64 x - x\<bar> \<le> 1 / 2 ^ 53"
proof (cases "x = 0")
  case True
  then show ?thesis by simp
next
  case False
  assume a: "\<bar>x\<bar> \<le> 1"
  have "(2::real) powr (- 52) = 1 / 2 ^ 52" by (simp add: powr_neg_numeral)
  then have "ulp x \<le> 1 / 2 ^ 52" using ulp_unit [OF False a] by simp
  then show ?thesis using g64_err [of x] by simp
qed

lemma round64_unit: "\<bar>x\<bar> \<le> 1 \<Longrightarrow> round64 x = Fin (g64 x)"
proof -
  assume a: "\<bar>x\<bar> \<le> 1"
  have "(1::real) / 2 ^ 53 \<le> 1" by simp
  then have "\<bar>g64 x - x\<bar> \<le> 1" using g64_unit_err [OF a] by linarith
  then have "\<bar>g64 x\<bar> \<le> 2" using a by linarith
  moreover have "(2::real) < 2 powr 1024" by simp
  ultimately show ?thesis by (simp add: round64_def)
qed

lemma g64_1: "g64 1 = 1"
  using round64_unit [of 1] r_1 by simp

lemma g64_half: "g64 (1 / 2) = 1 / 2"
  using round64_unit [of "1 / 2"] r_1_2 by simp

lemma g64_unit_range: "\<bar>x\<bar> \<le> c \<Longrightarrow> g64 c = c \<Longrightarrow> \<bar>g64 x\<bar> \<le> c"
proof -
  assume a: "\<bar>x\<bar> \<le> c" and c: "g64 c = c"
  have "g64 x \<le> g64 c" using a by (intro g64_mono) simp
  moreover have "g64 (- c) \<le> g64 x" using a by (intro g64_mono) simp
  ultimately show ?thesis using c by (simp add: g64_minus abs_le_iff)
qed

text \<open>
  The affine map of a position inside the frame, computed in doubles: all three
  operations are finite, the result lies between -1 and 1 and is within
  \<open>2\<^sup>-\<^sup>5\<^sup>0\<close> of the exact value.
\<close>

lemma affine_near:
  assumes w: "0 < w" and a0: "0 \<le> a" and aw: "a \<le> w" and c: "c = 2 \<or> c = - 2"
  shows "\<exists>r. nmul (nsub (ndiv (Fin a) (Fin w)) (Fin (1 / 2))) (Fin c) = Fin r \<and>
             \<bar>r - c * (a / w - 1 / 2)\<bar> \<le> 1 / 2 ^ 50 \<and> - 1 \<le> r \<and> r \<le> 1"
proof -
  define x0 where "x0 = a / w"
  define q where "q = g64 x0"
  define d where "d = g64 (q - 1 / 2)"
  define r where "r = g64 (d * c)"
  have x0: "0 \<le> x0" "x0 \<le> 1" using w a0 aw by (simp_all add: x0_def)
  have "round64 x0 = Fin q" unfolding q_def using x0 by (intro round64_unit) simp
  then have q1: "ndiv (Fin a) (Fin w) = Fin q"
    using w by (simp add: ndiv_def x0_def)
  have qr: "0 \<le> q" "q \<le> 1"
    using g64_mono [of 0 x0] g64_mono [of x0 1] x0 by (simp_all add: q_def g64_1)
  have qe: "\<bar>q - x0\<bar> \<le> 1 / 2 ^ 53" using g64_unit_err [of x0] x0 by (simp add: q_def)
  have dh: "\<bar>q - 1 / 2\<bar> \<le> 1 / 2" using qr by linarith
  have d1: "nsub (Fin q) (Fin (1 / 2)) = Fin d"
    using round64_unit [of "q - 1 / 2"] dh by (simp add: nsub_def nadd_def nneg_def d_def)
  have dr: "\<bar>d\<bar> \<le> 1 / 2" unfolding d_def using dh g64_half by (rule g64_unit_range)
  have de: "\<bar>d - (q - 1 / 2)\<bar> \<le> 1 / 2 ^ 53"
    using g64_unit_err [of "q - 1 / 2"] dh by (simp add: d_def)
  have dc: "\<bar>d * c\<bar> \<le> 1" using dr c by (auto simp: abs_mult)
  have r1: "nmul (Fin d) (Fin c) = Fin r"
    using round64_unit [OF dc] by (simp add: nmul_def r_def)
  have rr: "\<bar>r\<bar> \<le> 1" unfolding r_def using dc g64_1 by (rule g64_unit_range)
  have re: "\<bar>r - d * c\<bar> \<le> 1 / 2 ^ 53" using g64_unit_err [OF dc] by (simp add: r_def)
  have "r - c * (x0 - 1 / 2) = (r - d * c) + c * (d - (q - 1 / 2)) + c * (q - x0)"
    by (simp add: algebra_simps)
  then have "\<bar>r - c * (x0 - 1 / 2)\<bar> \<le> \<bar>r - d * c\<bar> + \<bar>c * (d - (q - 1 / 2))\<bar> + \<bar>c * (q - x0)\<bar>"
    by linarith
  also have "\<dots> = \<bar>r - d * c\<bar> + 2 * \<bar>d - (q - 1 / 2)\<bar> + 2 * \<bar>q - x0\<bar>"
    using c by (auto simp: abs_mult)
  also have "\<dots> \<le> 1 / 2 ^ 53 + 2 * (1 / 2 ^ 53) + 2 * (1 / 2 ^ 53)"
    using re de qe by (intro add_mono mult_left_mono) simp_all
  also have "\<dots> \<le> 1 / 2 ^ 50" by simp
  finally have "\<bar>r - c * (x0 - 1 / 2)\<bar> \<le> 1 / 2 ^ 50" .
  then show ?thesis
    using q1 d1 r1 rr by (simp add: x0_def abs_le_iff)
qed

text \<open>The depth: doubled and clamped below at 0; at most 2 when the depth is at most 1.\<close>

lemma depth_range:
  assumes "z \<le> 1"
  shows "nle (Fin 0) (nmax (Fin 0) (nmul (Fin z) (Fin 2))) \<and>
         nle (nmax (Fin 0) (nmul (Fin z) (Fin 2))) (Fin 2)"
proof -
  have "z * 2 \<le> 2" using assms by simp
  then have m: "nle (round64 (z * 2)) (Fin 2)"
    using round64_mono [of "z * 2" 2] by (simp add: r_2)
  show ?thesis
  proof (cases "round64 (z * 2)")
    case (Fin y)
    then show ?thesis using m by (simp add: nmul_def nmax_def)
  next
    case PInf
    then show ?thesis using m by simp
  next
    case NInf
    then show ?thesis by (simp add: nmul_def nmax_def nless_def)
  next
    case NaN
    then show ?thesis by simp
  qed
qed

section \<open>Properties of the widget's frame processing\<close>

subsection \<open>The callbacks read a stale \<^verbatim>\<open>isTracking\<close>\<close>




lemma stopTracking_fields [simp]:
  "fingertips (stopTracking s) = no_fingertips"
  "robotMapping (stopTracking s) = neutral"
  "fps (stopTracking s) = Fin 0"
  "\<not> isTracking (stopTracking s)"
  by (simp_all add: stopTracking_def)

lemma startTracking_fields [simp]:
  "fingertips (startTracking b r now s) = fingertips s"
  "robotMapping (startTracking b r now s) = robotMapping s"
  by (simp_all add: startTracking_def Let_def)








text \<open>
  An example: the widget is started at the time 1000 on a 640 by 480 video, the camera
  takes a frame with the hand of the scenario, and results for that hand are handed to
  the registered callback. The widget shows that it is tracking, and nothing else has
  changed.
\<close>

lemma scenario_frame_ignored:
  "widget_run [Click Camera_starts (Fin 1000), Camera_frame (Some [scenario_hand]) (Fin 1016),
               Results (Some [scenario_hand]) (Fin 1033)]
     (initial_widget (Some \<lparr>cwidth = 300, cheight = 150, has_ctx = True, overlay = None\<rparr>)
        (Some (640, 480))) =
   Inr ((initial_widget (Some \<lparr>cwidth = 300, cheight = 150, has_ctx = True, overlay = None\<rparr>)
           (Some (640, 480)))
        \<lparr>isTracking := True, status := ''Hand tracking active'', handsRef := Some False,
          cameraRef := Some \<lparr>running = True, onFrame_isTracking = False\<rparr>,
          lastTimeRef := Fin 1000\<rparr>)"
  by (simp add: widget_step_def toggleTracking_def startTracking_def onFrame_def deliver_def
        onResults_def initial_widget_def Let_def)

text \<open>
  What \<open>onResults\<close> does with a frame without a hand once it is past its first line
  (which takes an \<^verbatim>\<open>isTracking\<close> that is true): the fingertips become absent and
  the robot mapping is left as it is, and so does \<open>updateRobotMapping\<close> when the thumb
  or the index tip is missing.
\<close>

lemma updateFPS_fields [simp]:
  "fingertips (updateFPS now s) = fingertips s"
  "robotMapping (updateFPS now s) = robotMapping s"
  by (simp_all add: updateFPS_def Let_def)

lemma onResults_no_hand:
  assumes "onResults True None now s = Inr s'"
  shows "robotMapping s' = robotMapping s"
  using assms
  by (cases "canvasRef s") (auto simp: onResults_def Let_def split: if_splits)

lemma updateRobotMapping_missing:
  "thumb data = None \<or> indexTip data = None \<Longrightarrow> updateRobotMapping data w h s = s"
  by (auto simp: updateRobotMapping_def split: option.splits)

section \<open>Properties of stopping\<close>

text \<open>
  C10. After \<open>stopTracking\<close>, from any state, the three fingertips are absent, the
  robot mapping is the neutral one (all coordinates zero, gripper open) and the FPS
  counter is zero.
\<close>

theorem stopTracking_neutral:
  "thumb (fingertips (stopTracking s)) = None \<and>
   indexPip (fingertips (stopTracking s)) = None \<and>
   indexTip (fingertips (stopTracking s)) = None \<and>
   robotMapping (stopTracking s) = \<lparr>rx = Fin 0, ry = Fin 0, rz = Fin 0, gripper = Open\<rparr> \<and>
   fps (stopTracking s) = Fin 0"
  by (simp add: stopTracking_def no_fingertips_def neutral_def)

lemma stopTracking_twice: "stopTracking (stopTracking s) = stopTracking s"
  by (cases "cameraRef s"; cases "canvasRef s") (simp_all add: stopTracking_def)

lemma stopTracking_camera:
  "(case cameraRef s of None \<Rightarrow> True | Some c \<Rightarrow> \<not> running c) \<Longrightarrow>
   cameraRef (stopTracking s) = cameraRef s"
  by (cases "cameraRef s") (simp_all add: stopTracking_def)

lemma stopTracking_page_fields [simp]:
  "\<not> isTracking_page (stopTracking_page t p)"
  "streamRef (stopTracking_page t p) = streamRef p"
  "hasVideo (stopTracking_page t p) = hasVideo p"
  "srcObject (stopTracking_page t p) = srcObject p"
  by (simp_all add: stopTracking_page_def addToConsole_def Let_def split: option.splits)

lemma stopCamera_fields:
  "\<not> isTracking_page (stopCamera t1 t2 p)"
  "streamRef (stopCamera t1 t2 p) = None"
  "\<not> isCameraActive (stopCamera t1 t2 p)"
  "hasVideo (stopCamera t1 t2 p) = hasVideo p"
  "srcObject (stopCamera t1 t2 p) = (if hasVideo p then None else srcObject p)"
  by (auto simp: stopCamera_def addToConsole_def Let_def split: option.splits)

text \<open>On a page whose camera is stopped, \<open>stopCamera\<close> only writes its line to the console.\<close>

lemma stopCamera_stopped:
  assumes "\<not> isTracking_page q" and "streamRef q = None" and "\<not> isCameraActive q"
    and "hasVideo q \<Longrightarrow> srcObject q = None"
  shows "stopCamera t3 t4 q = addToConsole t4 ''Camera stopped'' q"
  using assms by (cases q) (auto simp: stopCamera_def addToConsole_def Let_def)

lemma stopCamera_stopped_state:
  assumes "\<not> isTracking_page q" and "streamRef q = None" and "\<not> isCameraActive q"
    and "hasVideo q \<Longrightarrow> srcObject q = None"
  shows "(stopCamera t3 t4 q)\<lparr>consoleLogs := consoleLogs q\<rparr> = q"
  using stopCamera_stopped [OF assms] by (simp add: addToConsole_def)

text \<open>
  C9. Stopping the camera acquisition when it is stopped raises no error (the
  functions have no failing branch) and leaves the acquisition as it is. In the widget,
  \<open>stopTracking\<close> applied twice gives the state of one application, and applied to a
  widget that is not tracking and whose camera, if any, does not run, it leaves the
  tracking flag, the camera, the Hands object and the video as they are. On the page,
  \<open>stopCamera\<close> applied to a page whose camera is stopped (not tracking, camera
  inactive, no stream, no video source), in particular to the state an earlier
  \<open>stopCamera\<close> has left, changes nothing but the console log, to which every call
  adds its line.
\<close>

theorem stop_when_stopped:
  "stopTracking (stopTracking s) = stopTracking s \<and>
   (\<not> isTracking s \<and> (case cameraRef s of None \<Rightarrow> True | Some c \<Rightarrow> \<not> running c) \<longrightarrow>
      isTracking (stopTracking s) = isTracking s \<and> cameraRef (stopTracking s) = cameraRef s \<and>
      handsRef (stopTracking s) = handsRef s \<and> videoRef (stopTracking s) = videoRef s) \<and>
   (stopCamera t3 t4 (stopCamera t1 t2 p))\<lparr>consoleLogs := consoleLogs (stopCamera t1 t2 p)\<rparr> =
      stopCamera t1 t2 p \<and>
   (\<not> isTracking_page p \<and> \<not> isCameraActive p \<and> streamRef p = None \<and>
    (hasVideo p \<longrightarrow> srcObject p = None) \<longrightarrow>
      (stopCamera t1 t2 p)\<lparr>consoleLogs := consoleLogs p\<rparr> = p)"
proof (intro conjI impI)
  show "stopTracking (stopTracking s) = stopTracking s"
    by (rule stopTracking_twice)
  show "(stopCamera t3 t4 (stopCamera t1 t2 p))\<lparr>consoleLogs := consoleLogs (stopCamera t1 t2 p)\<rparr> =
      stopCamera t1 t2 p"
    by (rule stopCamera_stopped_state) (simp_all add: stopCamera_fields)
next
  assume a: "\<not> isTracking s \<and> (case cameraRef s of None \<Rightarrow> True | Some c \<Rightarrow> \<not> running c)"
  show "isTracking (stopTracking s) = isTracking s" using a by simp
  show "cameraRef (stopTracking s) = cameraRef s" using a by (simp add: stopTracking_camera)
  show "handsRef (stopTracking s) = handsRef s" by (simp add: stopTracking_def)
  show "videoRef (stopTracking s) = videoRef s" by (simp add: stopTracking_def)
next
  assume "\<not> isTracking_page p \<and> \<not> isCameraActive p \<and> streamRef p = None \<and>
    (hasVideo p \<longrightarrow> srcObject p = None)"
  then show "(stopCamera t1 t2 p)\<lparr>consoleLogs := consoleLogs p\<rparr> = p"
    by (intro stopCamera_stopped_state) simp_all
qed

theorem stop_when_stopped_witness:
  "stopTracking (stopTracking (initial_widget None None)) = stopTracking (initial_widget None None) \<and>
   isTracking (stopTracking (initial_widget None None)) = isTracking (initial_widget None None) \<and>
   cameraRef (stopTracking (initial_widget None None)) = cameraRef (initial_widget None None) \<and>
   (stopCamera ''10:00:01'' ''10:00:01'' (stopCamera ''10:00:00'' ''10:00:00'' initial_page))
      \<lparr>consoleLogs := consoleLogs (stopCamera ''10:00:00'' ''10:00:00'' initial_page)\<rparr> =
      stopCamera ''10:00:00'' ''10:00:00'' initial_page \<and>
   (stopCamera ''10:00:00'' ''10:00:00'' initial_page)\<lparr>consoleLogs := consoleLogs initial_page\<rparr> =
      initial_page"
  using stop_when_stopped [where s = "initial_widget None None" and p = initial_page
      and ?t1.0 = "''10:00:00''" and ?t2.0 = "''10:00:00''"
      and ?t3.0 = "''10:00:01''" and ?t4.0 = "''10:00:01''"]
  by (simp add: initial_widget_def initial_page_def)

text \<open>The line of the console that a repeated \<open>stopCamera\<close> adds.\<close>

lemma stopCamera_again_console:
  "consoleLogs (stopCamera t3 t4 (stopCamera t1 t2 p)) =
     take 50 ((''['' @ t4 @ ''] Camera stopped'') # consoleLogs (stopCamera t1 t2 p))"
proof -
  have "stopCamera t3 t4 (stopCamera t1 t2 p) = addToConsole t4 ''Camera stopped'' (stopCamera t1 t2 p)"
    by (rule stopCamera_stopped) (simp_all add: stopCamera_fields)
  then show ?thesis by (simp add: addToConsole_def)
qed

section \<open>Properties of the robot mapping\<close>

subsection \<open>The end-to-end scenario\<close>

lemma scenario_thumb_pixels:
  "to_pixels scenario_thumb 640 480 = \<lparr>px = Fin 320, py = Fin 240, pz = Fin 0\<rparr>"
  by (simp add: to_pixels_def scenario_thumb_def nmul_def r_320 r_240)

lemma scenario_indexPip_pixels:
  "to_pixels scenario_indexPip 640 480 =
     \<lparr>px = Fin (5854679515581645 / 17592186044416), py = Fin 144, pz = Fin 0\<rparr>"
  by (simp add: to_pixels_def scenario_indexPip_def nmul_def r_pip_x r_pip_y)

lemma scenario_indexTip_pixels:
  "to_pixels scenario_indexTip 640 480 = \<lparr>px = Fin 352, py = Fin 96, pz = Fin 0\<rparr>"
  by (simp add: to_pixels_def scenario_indexTip_def nmul_def r_tip_x r_tip_y)

lemma scenario_distance:
  "distance \<lparr>px = Fin 320, py = Fin 240, pz = z\<rparr> \<lparr>px = Fin 352, py = Fin 96, pz = z'\<rparr> =
     Fin (2595071061399373 / 17592186044416)"
  by (simp add: distance_def nsub_def nadd_def nneg_def npow2_def nmul_def nsqrt_def
        r_m32 r_144 r_1024 r_20736 r_21760 r_sqrt_21760)

lemma scenario_rx:
  "nmul (nsub (ndiv (Fin 352) (Fin 640)) (Fin (1 / 2))) (Fin 2) =
     Fin (225179981368525 / 2251799813685248)"
  by (simp add: ndiv_def nsub_def nadd_def nneg_def nmul_def r_11_20 r_x_sub r_x_mul)

lemma scenario_ry:
  "nmul (nsub (ndiv (Fin 96) (Fin 480)) (Fin (1 / 2))) (Fin (- 2)) =
     Fin (5404319552844595 / 9007199254740992)"
  by (simp add: ndiv_def nsub_def nadd_def nneg_def nmul_def r_1_5 r_y_sub r_y_mul)

lemma depth_zero: "nmax (Fin 0) (nmul (Fin 0) (Fin 2)) = Fin 0"
  by (simp add: nmul_def nmax_def)

lemma depth_three: "nmax (Fin 0) (nmul (Fin (3 / 2)) (Fin 2)) = Fin 3"
  by (simp add: nmul_def nmax_def r_3)

lemma scenario_fingertips:
  "fingertips_of scenario_thumb scenario_indexPip scenario_indexTip 640 480 =
     \<lparr>thumb = Some \<lparr>px = Fin 320, py = Fin 240, pz = Fin 0\<rparr>,
      indexPip = Some \<lparr>px = Fin (5854679515581645 / 17592186044416), py = Fin 144, pz = Fin 0\<rparr>,
      indexTip = Some \<lparr>px = Fin 352, py = Fin 96, pz = Fin 0\<rparr>\<rparr>"
  by (simp add: fingertips_of_def scenario_thumb_pixels scenario_indexPip_pixels
        scenario_indexTip_pixels)

lemma scenario_mapping:
  "robotMapping (updateRobotMapping
       (fingertips_of scenario_thumb scenario_indexPip scenario_indexTip 640 480)
       (Fin 640) (Fin 480) s) =
     \<lparr>rx = Fin (225179981368525 / 2251799813685248),
      ry = Fin (5404319552844595 / 9007199254740992), rz = Fin 0, gripper = Open\<rparr>"
  by (simp add: scenario_fingertips updateRobotMapping_def scenario_distance scenario_rx
        scenario_ry depth_zero)

text \<open>
  C3, as the code computes it. On a 640 by 480 frame the landmarks of the scenario
  become the pixel positions (320, 240) of the thumb and (352, 96) of the index tip.
  Their distance is the double 147.5127113166862 (the rounded square root of
  \<open>32\<^sup>2 + 144\<^sup>2 = 21760\<close>), so the gripper is open, and the mapping has
  \<open>x\<close> = 0.10000000000000009 and \<open>y\<close> = 0.6, the doubles that the two
  expressions give, each within \<open>10\<^sup>-\<^sup>1\<^sup>5\<close> of 0.1 and 0.6, and \<open>z\<close> = 0.
\<close>

theorem scenario_640_480:
  "fingertips_of scenario_thumb scenario_indexPip scenario_indexTip 640 480 =
     \<lparr>thumb = Some \<lparr>px = Fin 320, py = Fin 240, pz = Fin 0\<rparr>,
      indexPip = Some \<lparr>px = Fin (5854679515581645 / 17592186044416), py = Fin 144, pz = Fin 0\<rparr>,
      indexTip = Some \<lparr>px = Fin 352, py = Fin 96, pz = Fin 0\<rparr>\<rparr> \<and>
   distance (to_pixels scenario_thumb 640 480) (to_pixels scenario_indexTip 640 480) =
     Fin (2595071061399373 / 17592186044416) \<and>
   (1475 / 10 :: real) < 2595071061399373 / 17592186044416 \<and>
   (2595071061399373 / 17592186044416 :: real) < 1476 / 10 \<and>
   robotMapping (updateRobotMapping
       (fingertips_of scenario_thumb scenario_indexPip scenario_indexTip 640 480)
       (Fin 640) (Fin 480) s) =
     \<lparr>rx = Fin (225179981368525 / 2251799813685248),
      ry = Fin (5404319552844595 / 9007199254740992), rz = Fin 0, gripper = Open\<rparr> \<and>
   \<bar>225179981368525 / 2251799813685248 - 1 / 10 :: real\<bar> < 1 / 10 ^ 15 \<and>
   \<bar>5404319552844595 / 9007199254740992 - 6 / 10 :: real\<bar> < 1 / 10 ^ 15"
  using scenario_fingertips scenario_mapping [of s]
  by (simp add: scenario_thumb_pixels scenario_indexTip_pixels scenario_distance)

text \<open>
  This conversion and mapping is what \<open>onResults\<close> does with the hand of the scenario
  once it is past its first line, on a canvas with a drawing context and a 640 by 480
  video.
\<close>

lemma onResults_scenario:
  assumes "canvasRef s = Some c" and "has_ctx c" and "videoRef s = Some (640, 480)"
  shows "\<exists>s'. onResults True (Some [scenario_hand]) now s = Inr s' \<and>
              fingertips s' =
                fingertips_of scenario_thumb scenario_indexPip scenario_indexTip 640 480 \<and>
              robotMapping s' =
                \<lparr>rx = Fin (225179981368525 / 2251799813685248),
                 ry = Fin (5404319552844595 / 9007199254740992), rz = Fin 0, gripper = Open\<rparr>"
proof -
  have u: "fingertips (updateRobotMapping data w h s0) = fingertips s0" for data w h s0
    by (simp add: updateRobotMapping_def split: option.splits)
  show ?thesis
    using assms
    by (simp add: onResults_def Let_def landmark_at_def scenario_hand_def frame_width_def
          frame_height_def scenario_mapping u)
qed

text \<open>The distance of the scenario is more than 7 pixels away from 154.9.\<close>

theorem scenario_distance_counterexample:
  "\<exists>d. distance (to_pixels scenario_thumb 640 480) (to_pixels scenario_indexTip 640 480) = Fin d \<and>
       7 < \<bar>d - 1549 / 10\<bar>"
  by (rule exI [of _ "2595071061399373 / 17592186044416"])
     (simp add: scenario_thumb_pixels scenario_indexTip_pixels scenario_distance)

subsection \<open>The gripper\<close>

lemma far_open: "50 \<le> x \<Longrightarrow> \<not> nless (round64 x) (Fin 50)"
proof -
  assume "50 \<le> x"
  then have "nle (round64 50) (round64 x)" by (rule round64_mono)
  then show ?thesis
    by (cases "round64 x") (simp_all add: r_50 nless_def)
qed








subsection \<open>The ranges\<close>

lemma deep_indexTip_pixels:
  "to_pixels deep_indexTip 640 480 = \<lparr>px = Fin 352, py = Fin 96, pz = Fin (3 / 2)\<rparr>"
  by (simp add: to_pixels_def deep_indexTip_def scenario_indexTip_def nmul_def r_tip_x r_tip_y)

lemma beyond_indexTip_pixels:
  "to_pixels beyond_indexTip 640 480 = \<lparr>px = Fin 704, py = Fin 600, pz = Fin (3 / 2)\<rparr>"
  by (simp add: to_pixels_def beyond_indexTip_def nmul_def r_c7_x r_600)

lemma beyond_distance:
  "\<not> nless (distance \<lparr>px = Fin 320, py = Fin 240, pz = z\<rparr> \<lparr>px = Fin 704, py = Fin 600, pz = z'\<rparr>)
       (Fin 50)"
proof -
  have "50 \<le> sqrt 277056"
    by (rule real_le_rsqrt) simp
  then have "\<not> nless (round64 (sqrt 277056)) (Fin 50)" by (rule far_open)
  then show ?thesis
    by (simp add: distance_def nsub_def nadd_def nneg_def npow2_def nmul_def nsqrt_def
          r_m384 r_m360 r_147456 r_129600 r_277056)
qed

lemma beyond_rx:
  "nmul (nsub (ndiv (Fin 704) (Fin 640)) (Fin (1 / 2))) (Fin 2) =
     Fin (1351079888211149 / 1125899906842624)"
  by (simp add: ndiv_def nsub_def nadd_def nneg_def nmul_def r_11_10 r_x7_sub r_x7_mul)

lemma beyond_ry:
  "nmul (nsub (ndiv (Fin 600) (Fin 480)) (Fin (1 / 2))) (Fin (- 2)) = Fin (- (3 / 2))"
  by (simp add: ndiv_def nsub_def nadd_def nneg_def nmul_def r_5_4 r_3_4 r_m3_2)

text \<open>
  C7, at two failing inputs, on a 640 by 480 frame with the thumb of the scenario.
  The index tip of the scenario at the depth 1.5 is mapped to \<open>z\<close> = 3, above 2.
  An index tip beyond the right and lower edges, at (1.1, 1.25, 1.5), has the pixel
  position (704, 600) and is mapped to \<open>x\<close> = 1.2000000000000002, above 1, to
  \<open>y\<close> = -1.5, below -1, and to \<open>z\<close> = 3.
\<close>

theorem robot_range_exceeded:
  "robotMapping (updateRobotMapping
       (fingertips_of scenario_thumb scenario_indexPip deep_indexTip 640 480)
       (Fin 640) (Fin 480) (initial_widget None None)) =
     \<lparr>rx = Fin (225179981368525 / 2251799813685248),
      ry = Fin (5404319552844595 / 9007199254740992), rz = Fin 3, gripper = Open\<rparr> \<and>
   robotMapping (updateRobotMapping
       (fingertips_of scenario_thumb scenario_indexPip beyond_indexTip 640 480)
       (Fin 640) (Fin 480) (initial_widget None None)) =
     \<lparr>rx = Fin (1351079888211149 / 1125899906842624), ry = Fin (- (3 / 2)), rz = Fin 3,
      gripper = Open\<rparr> \<and>
   \<not> nle (Fin 3) (Fin 2) \<and>
   \<not> nle (Fin (1351079888211149 / 1125899906842624)) (Fin 1) \<and>
   \<not> nle (Fin (- 1)) (Fin (- (3 / 2)))"
  by (simp add: fingertips_of_def scenario_thumb_pixels scenario_indexPip_pixels
        deep_indexTip_pixels beyond_indexTip_pixels updateRobotMapping_def scenario_distance
        beyond_distance scenario_rx scenario_ry beyond_rx beyond_ry depth_three)

text \<open>
  Where the ranges do hold: on a frame of positive width and height, for an index tip
  whose pixel position is inside the frame and whose depth is at most 1.
\<close>

lemma in_frame_ranges:
  assumes "0 < w" and "0 < h" and "thumb data = Some t" and "indexTip data = Some i"
    and "px i = Fin a" and "py i = Fin b" and "pz i = Fin z"
    and "0 \<le> a" and "a \<le> w" and "0 \<le> b" and "b \<le> h" and "z \<le> 1"
  shows "nle (Fin (- 1)) (rx (robotMapping (updateRobotMapping data (Fin w) (Fin h) s))) \<and>
         nle (rx (robotMapping (updateRobotMapping data (Fin w) (Fin h) s))) (Fin 1) \<and>
         nle (Fin (- 1)) (ry (robotMapping (updateRobotMapping data (Fin w) (Fin h) s))) \<and>
         nle (ry (robotMapping (updateRobotMapping data (Fin w) (Fin h) s))) (Fin 1) \<and>
         nle (Fin 0) (rz (robotMapping (updateRobotMapping data (Fin w) (Fin h) s))) \<and>
         nle (rz (robotMapping (updateRobotMapping data (Fin w) (Fin h) s))) (Fin 2)"
proof -
  obtain r where r: "nmul (nsub (ndiv (Fin a) (Fin w)) (Fin (1 / 2))) (Fin 2) = Fin r"
      "- 1 \<le> r" "r \<le> 1"
    using affine_near [of w a 2] assms(1,8,9) by auto
  obtain r' where r': "nmul (nsub (ndiv (Fin b) (Fin h)) (Fin (1 / 2))) (Fin (- 2)) = Fin r'"
      "- 1 \<le> r'" "r' \<le> 1"
    using affine_near [of h b "- 2"] assms(2,10,11) by auto
  show ?thesis
    using assms(3-7) r r' depth_range [OF assms(12)] by (simp add: updateRobotMapping_def)
qed

subsection \<open>Monotonicity\<close>

lemma rx_mono:
  "0 < w \<Longrightarrow> a \<le> a' \<Longrightarrow>
   nle (nmul (nsub (ndiv (Fin a) (Fin w)) (Fin (1 / 2))) (Fin 2))
       (nmul (nsub (ndiv (Fin a') (Fin w)) (Fin (1 / 2))) (Fin 2))"
  by (intro nmul_pos_mono nsub_mono ndiv_mono) simp_all

lemma ry_anti:
  "0 < h \<Longrightarrow> b \<le> b' \<Longrightarrow>
   nle (nmul (nsub (ndiv (Fin b') (Fin h)) (Fin (1 / 2))) (Fin (- 2)))
       (nmul (nsub (ndiv (Fin b) (Fin h)) (Fin (1 / 2))) (Fin (- 2)))"
  by (intro nmul_neg_anti nsub_mono ndiv_mono) simp_all

text \<open>
  C8, as the code computes it. On a frame of positive width and height, for two
  fingertip sets with thumb and index tip present and finite index tip positions, the
  larger \<open>indexTip.x\<close> never gives the smaller \<open>x\<close>, and the larger \<open>indexTip.y\<close>
  never gives the larger \<open>y\<close>. For an index tip inside the frame, \<open>x\<close> is within
  \<open>2\<^sup>-\<^sup>5\<^sup>0\<close> of the affine function \<open>2 * indexTip.x / width - 1\<close> and \<open>y\<close>
  within \<open>2\<^sup>-\<^sup>5\<^sup>0\<close> of \<open>1 - 2 * indexTip.y / height\<close>: they are these functions
  with each of the three operations rounded to a double.
\<close>

theorem robot_xy_monotone:
  assumes "0 < w" and "0 < h"
    and "thumb data = Some t" and "indexTip data = Some i"
    and "thumb data' = Some t'" and "indexTip data' = Some i'"
    and "px i = Fin a" and "py i = Fin b" and "px i' = Fin a'" and "py i' = Fin b'"
  shows "(a \<le> a' \<longrightarrow>
            nle (rx (robotMapping (updateRobotMapping data (Fin w) (Fin h) s)))
                (rx (robotMapping (updateRobotMapping data' (Fin w) (Fin h) s)))) \<and>
         (b \<le> b' \<longrightarrow>
            nle (ry (robotMapping (updateRobotMapping data' (Fin w) (Fin h) s)))
                (ry (robotMapping (updateRobotMapping data (Fin w) (Fin h) s)))) \<and>
         (0 \<le> a \<and> a \<le> w \<longrightarrow>
            (\<exists>r. rx (robotMapping (updateRobotMapping data (Fin w) (Fin h) s)) = Fin r \<and>
                 \<bar>r - (2 * a / w - 1)\<bar> \<le> 1 / 2 ^ 50)) \<and>
         (0 \<le> b \<and> b \<le> h \<longrightarrow>
            (\<exists>r. ry (robotMapping (updateRobotMapping data (Fin w) (Fin h) s)) = Fin r \<and>
                 \<bar>r - (1 - 2 * b / h)\<bar> \<le> 1 / 2 ^ 50))"
proof (intro conjI impI)
  assume "a \<le> a'"
  then show "nle (rx (robotMapping (updateRobotMapping data (Fin w) (Fin h) s)))
                (rx (robotMapping (updateRobotMapping data' (Fin w) (Fin h) s)))"
    using assms rx_mono [of w a a'] by (simp add: updateRobotMapping_def)
next
  assume "b \<le> b'"
  then show "nle (ry (robotMapping (updateRobotMapping data' (Fin w) (Fin h) s)))
                (ry (robotMapping (updateRobotMapping data (Fin w) (Fin h) s)))"
    using assms ry_anti [of h b b'] by (simp add: updateRobotMapping_def)
next
  assume "0 \<le> a \<and> a \<le> w"
  then obtain r where r: "nmul (nsub (ndiv (Fin a) (Fin w)) (Fin (1 / 2))) (Fin 2) = Fin r"
      "\<bar>r - 2 * (a / w - 1 / 2)\<bar> \<le> 1 / 2 ^ 50"
    using affine_near [of w a 2] assms(1) by auto
  have "2 * (a / w - 1 / 2) = 2 * a / w - 1" by simp
  then show "\<exists>r. rx (robotMapping (updateRobotMapping data (Fin w) (Fin h) s)) = Fin r \<and>
                 \<bar>r - (2 * a / w - 1)\<bar> \<le> 1 / 2 ^ 50"
    using assms r by (simp add: updateRobotMapping_def)
next
  assume "0 \<le> b \<and> b \<le> h"
  then obtain r where r: "nmul (nsub (ndiv (Fin b) (Fin h)) (Fin (1 / 2))) (Fin (- 2)) = Fin r"
      "\<bar>r - (- 2) * (b / h - 1 / 2)\<bar> \<le> 1 / 2 ^ 50"
    using affine_near [of h b "- 2"] assms(2) by auto
  have "(- 2) * (b / h - 1 / 2) = 1 - 2 * b / h" by simp
  then show "\<exists>r. ry (robotMapping (updateRobotMapping data (Fin w) (Fin h) s)) = Fin r \<and>
                 \<bar>r - (1 - 2 * b / h)\<bar> \<le> 1 / 2 ^ 50"
    using assms r by (simp add: updateRobotMapping_def)
qed

theorem robot_xy_monotone_witness:
  "nle (rx (robotMapping (updateRobotMapping
          \<lparr>thumb = Some \<lparr>px = Fin 320, py = Fin 240, pz = Fin 0\<rparr>, indexPip = None,
           indexTip = Some \<lparr>px = Fin 352, py = Fin 96, pz = Fin 0\<rparr>\<rparr>
          (Fin 640) (Fin 480) (initial_widget None None))))
       (rx (robotMapping (updateRobotMapping
          \<lparr>thumb = Some \<lparr>px = Fin 320, py = Fin 240, pz = Fin 0\<rparr>, indexPip = None,
           indexTip = Some \<lparr>px = Fin 400, py = Fin 120, pz = Fin 0\<rparr>\<rparr>
          (Fin 640) (Fin 480) (initial_widget None None)))) \<and>
   nle (ry (robotMapping (updateRobotMapping
          \<lparr>thumb = Some \<lparr>px = Fin 320, py = Fin 240, pz = Fin 0\<rparr>, indexPip = None,
           indexTip = Some \<lparr>px = Fin 400, py = Fin 120, pz = Fin 0\<rparr>\<rparr>
          (Fin 640) (Fin 480) (initial_widget None None))))
       (ry (robotMapping (updateRobotMapping
          \<lparr>thumb = Some \<lparr>px = Fin 320, py = Fin 240, pz = Fin 0\<rparr>, indexPip = None,
           indexTip = Some \<lparr>px = Fin 352, py = Fin 96, pz = Fin 0\<rparr>\<rparr>
          (Fin 640) (Fin 480) (initial_widget None None)))) \<and>
   (\<exists>r. rx (robotMapping (updateRobotMapping
          \<lparr>thumb = Some \<lparr>px = Fin 320, py = Fin 240, pz = Fin 0\<rparr>, indexPip = None,
           indexTip = Some \<lparr>px = Fin 352, py = Fin 96, pz = Fin 0\<rparr>\<rparr>
          (Fin 640) (Fin 480) (initial_widget None None))) = Fin r \<and>
        \<bar>r - (2 * 352 / 640 - 1)\<bar> \<le> 1 / 2 ^ 50) \<and>
   (\<exists>r. ry (robotMapping (updateRobotMapping
          \<lparr>thumb = Some \<lparr>px = Fin 320, py = Fin 240, pz = Fin 0\<rparr>, indexPip = None,
           indexTip = Some \<lparr>px = Fin 352, py = Fin 96, pz = Fin 0\<rparr>\<rparr>
          (Fin 640) (Fin 480) (initial_widget None None))) = Fin r \<and>
        \<bar>r - (1 - 2 * 96 / 480)\<bar> \<le> 1 / 2 ^ 50)"
  using robot_xy_monotone [where w = 640 and h = 480
      and data = "\<lparr>thumb = Some \<lparr>px = Fin 320, py = Fin 240, pz = Fin 0\<rparr>, indexPip = None,
                    indexTip = Some \<lparr>px = Fin 352, py = Fin 96, pz = Fin 0\<rparr>\<rparr>"
      and data' = "\<lparr>thumb = Some \<lparr>px = Fin 320, py = Fin 240, pz = Fin 0\<rparr>, indexPip = None,
                    indexTip = Some \<lparr>px = Fin 400, py = Fin 120, pz = Fin 0\<rparr>\<rparr>"
      and t = "\<lparr>px = Fin 320, py = Fin 240, pz = Fin 0\<rparr>"
      and t' = "\<lparr>px = Fin 320, py = Fin 240, pz = Fin 0\<rparr>"
      and i = "\<lparr>px = Fin 352, py = Fin 96, pz = Fin 0\<rparr>"
      and i' = "\<lparr>px = Fin 400, py = Fin 120, pz = Fin 0\<rparr>"
      and a = 352 and a' = 400 and b = 96 and b' = 120 and s = "initial_widget None None"]
  by simp

lemma left_indexTip_pixels:
  "to_pixels left_indexTip 640 480 = \<lparr>px = Fin 120, py = Fin 96, pz = Fin 0\<rparr>"
  by (simp add: to_pixels_def left_indexTip_def nmul_def r_120 r_tip_y)

lemma left_indexTip_next_pixels:
  "to_pixels left_indexTip_next 640 480 =
     \<lparr>px = Fin (8444249301319681 / 70368744177664), py = Fin 96, pz = Fin 0\<rparr>"
  by (simp add: to_pixels_def left_indexTip_next_def nmul_def r_c8_p2 r_tip_y)

lemma left_rx:
  "nmul (nsub (ndiv (Fin 120) (Fin 640)) (Fin (1 / 2))) (Fin 2) = Fin (- (5 / 8))"
  by (simp add: ndiv_def nsub_def nadd_def nneg_def nmul_def r_3_16 r_c8_sub1 r_c8_mul)

lemma left_next_rx:
  "nmul (nsub (ndiv (Fin (8444249301319681 / 70368744177664)) (Fin 640)) (Fin (1 / 2))) (Fin 2) =
     Fin (- (5 / 8))"
  by (simp add: ndiv_def nsub_def nadd_def nneg_def nmul_def r_c8_q2 r_c8_sub2 r_c8_mul)

text \<open>
  Two index tips at neighbouring doubles, 0.1875 and 0.18750000000000003, on a 640
  by 480 frame: the pixel position of the second is to the right of the first, at
  120.00000000000001 and 120, and both are mapped to \<open>x\<close> = -0.625.
\<close>

theorem robot_x_counterexample:
  "indexTip (fingertips_of scenario_thumb scenario_indexPip left_indexTip 640 480) =
     Some \<lparr>px = Fin 120, py = Fin 96, pz = Fin 0\<rparr> \<and>
   indexTip (fingertips_of scenario_thumb scenario_indexPip left_indexTip_next 640 480) =
     Some \<lparr>px = Fin (8444249301319681 / 70368744177664), py = Fin 96, pz = Fin 0\<rparr> \<and>
   (120 :: real) < 8444249301319681 / 70368744177664 \<and>
   rx (robotMapping (updateRobotMapping
         (fingertips_of scenario_thumb scenario_indexPip left_indexTip 640 480)
         (Fin 640) (Fin 480) (initial_widget None None))) = Fin (- (5 / 8)) \<and>
   rx (robotMapping (updateRobotMapping
         (fingertips_of scenario_thumb scenario_indexPip left_indexTip_next 640 480)
         (Fin 640) (Fin 480) (initial_widget None None))) = Fin (- (5 / 8))"
  by (simp add: fingertips_of_def left_indexTip_pixels left_indexTip_next_pixels
        updateRobotMapping_def left_rx left_next_rx)

section \<open>Properties of the tracking callback\<close>


text \<open>
  The \<^verbatim>\<open>catch\<close> block of the earlier revision, in contrast, leaves three fingertips
  present, whatever is thrown and whatever the random draws are.
\<close>

lemma earlier_revision_simulated:
  "thumb (fingertipData (catch_earlier_revision e random now time s)) \<noteq> None \<and>
   indexPip (fingertipData (catch_earlier_revision e random now time s)) \<noteq> None \<and>
   indexTip (fingertipData (catch_earlier_revision e random now time s)) \<noteq> None"
  by (simp add: catch_earlier_revision_def simulatedData_def)

section \<open>Properties of the streaming channel\<close>

lemmas ws_defs = step_def connectWebSocket_def disconnectWebSocket_def onopen_def onclose_def
  onerror_def clearTimeout_def close_socket_def ws_is_open_def initial_integration_def

text \<open>Every close event schedules one timeout, of 3000 ms, and records it in the ref.\<close>

lemma close_schedules_one:
  assumes "step (Socket_closes k) s = Some s'"
  shows "timers s' = timers s @ [(Suc (timerCount s), 3000)] \<and>
         reconnectTimeoutRef s' = Some (Suc (timerCount s)) \<and>
         timerCount s' = Suc (timerCount s) \<and>
         length (timers s') = Suc (length (timers s))"
  using assms by (auto simp: step_def onclose_def split: if_splits)

text \<open>Two close events in a row leave two more timers pending.\<close>

lemma two_closes_two_timers:
  assumes "step (Socket_closes j) s = Some s1" and "step (Socket_closes k) s1 = Some s2"
  shows "timers s2 = timers s @ [(Suc (timerCount s), 3000), (Suc (Suc (timerCount s)), 3000)]"
  using close_schedules_one [OF assms(1)] close_schedules_one [OF assms(2)] by simp

text \<open>
  What \<open>disconnectWebSocket\<close> leaves of an open connection: the socket is closing
  and forgotten, and no timeout is recorded.
\<close>

lemma disconnect_fields:
  assumes "wsRef s = Some k" and "k < length (sockets s)" and "sockets s ! k = OPEN"
  shows "wsRef (disconnectWebSocket s) = None"
    and "sockets (disconnectWebSocket s) = (sockets s)[k := CLOSING]"
    and "timerCount (disconnectWebSocket s) = timerCount s"
    and "reconnectTimeoutRef (disconnectWebSocket s) = None"
    and "timers s = [] \<Longrightarrow> timers (disconnectWebSocket s) = []"
  using assms
  by (cases "reconnectTimeoutRef s";
      simp add: disconnectWebSocket_def close_socket_def clearTimeout_def Let_def)+

text \<open>
  From any state with an open connection and no timer pending: after the disconnect,
  the close event of the socket and the timer that event has scheduled, a new socket
  is connecting.
\<close>

lemma disconnect_then_close_reconnects:
  assumes "wsRef s = Some k" and "k < length (sockets s)" and "sockets s ! k = OPEN"
    and "timers s = []"
  shows "\<exists>s'. run [Click_disconnect, Socket_closes k, Timer_fires (Suc (timerCount s)) True] s = Some s'
           \<and> wsRef s' = Some (length (sockets s))
           \<and> sockets s' = (sockets s)[k := CLOSED] @ [CONNECTING]"
proof -
  define s1 where "s1 = disconnectWebSocket s"
  define s2 where "s2 = onclose (s1\<lparr>sockets := (sockets s1)[k := CLOSED]\<rparr>)"
  define s3 where "s3 = connectWebSocket True (clearTimeout (Suc (timerCount s)) s2)"
  have f1: "wsRef s1 = None" "sockets s1 = (sockets s)[k := CLOSING]" "timerCount s1 = timerCount s"
      "timers s1 = []"
    using disconnect_fields [OF assms(1,2,3)] assms(4) by (simp_all add: s1_def)
  have st1: "step Click_disconnect s = Some s1"
    by (simp add: step_def s1_def)
  have st2: "step (Socket_closes k) s1 = Some s2"
    using assms(2) by (simp add: step_def s2_def f1)
  have f2: "wsRef s2 = None" "sockets s2 = (sockets s)[k := CLOSED]"
           "timers s2 = [(Suc (timerCount s), 3000)]"
    by (simp_all add: s2_def onclose_def f1)
  have st3: "step (Timer_fires (Suc (timerCount s)) True) s2 = Some s3"
    by (simp add: step_def s3_def f2)
  have f3: "wsRef s3 = Some (length (sockets s))" "sockets s3 = (sockets s)[k := CLOSED] @ [CONNECTING]"
    by (simp_all add: s3_def connectWebSocket_def ws_is_open_def clearTimeout_def f2)
  show ?thesis
    by (simp add: st1 st2 st3 f3)
qed

text \<open>
  C5, at a failing trace. The user connects, the socket opens, the user disconnects;
  \<open>disconnectWebSocket\<close> calls \<^verbatim>\<open>close()\<close>, forgets the socket and clears
  the timeout pending then (none). The socket's close event arrives afterwards and its
  handler schedules a reconnect; three seconds later the timer fires, a second socket
  is created, and when it opens the component is connected again, with no click on
  Connect after the disconnect.
\<close>

theorem reconnect_after_disconnect:
  "run [Click_connect True, Socket_opens 0, Click_disconnect, Socket_closes 0, Timer_fires 1 True,
        Socket_opens 1] initial_integration =
     Some \<lparr>isConnected_ws = True, isTracking_ws = False, robotType = ''SO-101'',
       trackingData = None, connectionStatus = ''connected'', wsRef = Some 1,
       reconnectTimeoutRef = None, sockets = [CLOSED, OPEN], timers = [],
       timerCount = 1, sent = []\<rparr>"
  by (simp add: ws_defs)

text \<open>
  C6, at two failing traces. Two clicks on Connect before the first socket has opened
  create two sockets; both fail, and each close event schedules its timeout: two
  reconnect timers are pending, and the ref holds the second only. With a third click
  and a third failed socket three timers are pending; when the first of them has fired
  and the socket it created opens, the handler clears the timeout of the ref, the
  third, and the second timer is still pending beside the open connection.
\<close>

theorem two_timers_pending:
  "run [Click_connect True, Click_connect True, Socket_closes 0, Socket_closes 1]
       initial_integration =
     Some \<lparr>isConnected_ws = False, isTracking_ws = False, robotType = ''SO-101'',
       trackingData = None, connectionStatus = ''disconnected'', wsRef = Some 1,
       reconnectTimeoutRef = Some 2, sockets = [CLOSED, CLOSED],
       timers = [(1, 3000), (2, 3000)], timerCount = 2, sent = []\<rparr> \<and>
   run [Click_connect True, Click_connect True, Click_connect True, Socket_closes 0,
        Socket_closes 1, Socket_closes 2, Timer_fires 1 True, Socket_opens 3]
       initial_integration =
     Some \<lparr>isConnected_ws = True, isTracking_ws = False, robotType = ''SO-101'',
       trackingData = None, connectionStatus = ''connected'', wsRef = Some 3,
       reconnectTimeoutRef = None, sockets = [CLOSED, CLOSED, CLOSED, OPEN],
       timers = [(2, 3000)], timerCount = 3, sent = []\<rparr>"
  by (simp add: ws_defs)

end
